theory Spec2Isabelle
  imports Main "HOL-Library.Word" "HOL-Library.Sublist"
begin

section \<open>Backend client: data model\<close>

text \<open>
  The embedding follows \<^verbatim>\<open>src/backend/client.go\<close>. Byte slices and strings are both
  character lists, so the conversions \<^verbatim>\<open>[]byte(s)\<close> and \<^verbatim>\<open>string(b)\<close> are the identity.
\<close>

type_synonym bytes = string

text \<open>
  Go errors. \<open>New\<close> is \<^verbatim>\<open>errors.New\<close>, \<open>Wrap\<close> is \<^verbatim>\<open>errors.Wrap\<close>, \<open>Errorf\<close> is
  \<^verbatim>\<open>fmt.Errorf\<close> with the formatted message, and \<open>Lib\<close> is an error value produced by a
  library outside the package (encoding/json, net/http, io, crypto/tls, go-redis),
  identified by its message.
\<close>

datatype error = New string | Wrap error string | Errorf string | Lib string

definition ErrAsyncTimeout :: error where
  "ErrAsyncTimeout = New ''async timeout''"

text \<open>
  The payload types are declared outside \<^verbatim>\<open>client.go\<close>. The client reads and writes the
  base fields and the result only; the rest of each payload is an opaque body.
  \<^verbatim>\<open>MessageType\<close> and \<^verbatim>\<open>ResultCode\<close> are printed with \<^verbatim>\<open>%s\<close> and are strings.
\<close>

type_synonym MessageType = string
type_synonym ResultCode = string

record BasePayload =
  ProtocolVersion :: string
  SenderID :: string
  ReceiverID :: string
  TransactionID :: "32 word"
  MessageType :: MessageType

record Result =
  ResultCode :: ResultCode
  Description :: string

record 'p ReqPayload =
  BasePayload :: BasePayload
  Body :: 'p

record 'a AnsPayload =
  AnsBasePayload :: BasePayload
  Result :: Result
  AnsBody :: 'a

definition GetBasePayload :: "'p ReqPayload \<Rightarrow> BasePayload" where
  "GetBasePayload pl = ReqPayload.BasePayload pl"

definition Answer_GetBasePayload :: "'a AnsPayload \<Rightarrow> BasePayload" where
  "Answer_GetBasePayload pl = AnsBasePayload pl"

text \<open>
  Modelled from the spec: the message-type tags and the success result code are
  constants declared outside \<^verbatim>\<open>client.go\<close>. The spec has one tag per operation, shared by
  request and answer, shows the Start tag printed as \<^verbatim>\<open>PRStartReq\<close> in its sample key,
  and shows the success code as \<^verbatim>\<open>"Success"\<close> in its sample answer.
\<close>

definition PRStartReq :: MessageType where "PRStartReq = ''PRStartReq''"
definition PRStopReq :: MessageType where "PRStopReq = ''PRStopReq''"
definition XmitDataReq :: MessageType where "XmitDataReq = ''XmitDataReq''"
definition ProfileReq :: MessageType where "ProfileReq = ''ProfileReq''"
definition HomeNSReq :: MessageType where "HomeNSReq = ''HomeNSReq''"

definition Success :: ResultCode where "Success = ''Success''"

subsection \<open>Configuration and client\<close>

text \<open>
  \<^verbatim>\<open>*redis.Client\<close> is a pointer: \<open>None\<close> is nil, \<open>Some r\<close> a handle. \<^verbatim>\<open>time.Duration\<close> is
  a count of nanoseconds.
\<close>

type_synonym redis = nat

record ClientConfig =
  SenderID :: string
  ReceiverID :: string
  Server :: string
  CACert :: string
  TLSCert :: string
  TLSKey :: string
  RedisClient :: "redis option"
  AsyncTimeout :: int

record tlsConfig =
  RootCAs :: "bytes list option"
  Certificates :: "(bytes \<times> bytes) list"

datatype httpClient = DefaultClient | Transport tlsConfig

record client =
  server :: string
  httpClient :: httpClient
  protocolVersion :: string
  senderID :: string
  receiverID :: string
  redisClient :: "redis option"
  asyncTimeout :: int

text \<open>
  The calls \<^verbatim>\<open>NewClient\<close> makes to the file system and to the TLS library:
  \<^verbatim>\<open>ioutil.ReadFile\<close>, \<^verbatim>\<open>(*x509.CertPool).AppendCertsFromPEM\<close> and \<^verbatim>\<open>tls.LoadX509KeyPair\<close>.
  A failing call returns \<open>Inl\<close> with the library's message.
\<close>

record system =
  ReadFile :: "string \<Rightarrow> string + bytes"
  AppendCertsFromPEM :: "bytes \<Rightarrow> bool"
  LoadX509KeyPair :: "string \<Rightarrow> string \<Rightarrow> string + (bytes \<times> bytes)"

text \<open>
  \<^verbatim>\<open>NewClient\<close>. The constant \<^verbatim>\<open>ProtocolVersion1_0\<close> is declared outside \<^verbatim>\<open>client.go\<close> and is
  taken as a parameter. The second composite literal names \<^verbatim>\<open>server\<close> and \<^verbatim>\<open>httpClient\<close>
  only, so the other fields keep their zero values.
\<close>

definition loadCA :: "system \<Rightarrow> ClientConfig \<Rightarrow> tlsConfig \<Rightarrow> error + tlsConfig" where
  "loadCA sys config tlsc =
     (if CACert config \<noteq> [] then
        (case ReadFile sys (CACert config) of
           Inl e \<Rightarrow> Inl (Wrap (Lib e) ''read ca cert error'')
         | Inr rawCACert \<Rightarrow>
             if \<not> AppendCertsFromPEM sys rawCACert
             then Inl (New ''append ca cert to pool error'')
             else Inr (tlsc\<lparr>RootCAs := Some [rawCACert]\<rparr>))
      else Inr tlsc)"

definition loadKeyPair :: "system \<Rightarrow> ClientConfig \<Rightarrow> tlsConfig \<Rightarrow> error + tlsConfig" where
  "loadKeyPair sys config tlsc =
     (if TLSCert config \<noteq> [] \<or> TLSKey config \<noteq> [] then
        (case LoadX509KeyPair sys (TLSCert config) (TLSKey config) of
           Inl e \<Rightarrow> Inl (Wrap (Lib e) ''load x509 keypair error'')
         | Inr cert \<Rightarrow> Inr (tlsc\<lparr>Certificates := [cert]\<rparr>))
      else Inr tlsc)"

definition NewClient :: "system \<Rightarrow> string \<Rightarrow> ClientConfig \<Rightarrow> error + client" where
  "NewClient sys ProtocolVersion1_0 config =
     (if CACert config = [] \<and> TLSCert config = [] \<and> TLSKey config = [] then
        Inr \<lparr>server = Server config,
             httpClient = DefaultClient,
             protocolVersion = ProtocolVersion1_0,
             senderID = ClientConfig.SenderID config,
             receiverID = ClientConfig.ReceiverID config,
             redisClient = RedisClient config,
             asyncTimeout = AsyncTimeout config\<rparr>
      else
        (case loadCA sys config \<lparr>RootCAs = None, Certificates = []\<rparr> of
           Inl e \<Rightarrow> Inl e
         | Inr tlsc \<Rightarrow>
             (case loadKeyPair sys config tlsc of
                Inl e \<Rightarrow> Inl e
              | Inr tlsc' \<Rightarrow>
                  Inr \<lparr>server = Server config,
                       httpClient = Transport tlsc',
                       protocolVersion = [],
                       senderID = [],
                       receiverID = [],
                       redisClient = None,
                       asyncTimeout = 0\<rparr>)))"

definition GetSenderID :: "client \<Rightarrow> string" where
  "GetSenderID c = senderID c"

definition GetReceiverID :: "client \<Rightarrow> string" where
  "GetReceiverID c = receiverID c"

definition IsAsync :: "client \<Rightarrow> bool" where
  "IsAsync c = (redisClient c \<noteq> None)"

subsection \<open>The correlation key\<close>

text \<open>
  \<^verbatim>\<open>fmt.Sprintf("%d", id)\<close> for an unsigned value: the decimal digits, most significant
  first, with no sign and no leading zero (a single \<^verbatim>\<open>0\<close> for zero).
\<close>

definition digit :: "nat \<Rightarrow> char" where
  "digit d = char_of (48 + d)"

function decimal :: "nat \<Rightarrow> string" where
  "decimal n = (if n < 10 then [digit n] else decimal (n div 10) @ [digit (n mod 10)])"
  by pat_completeness auto
termination
  by (relation "measure id") auto

declare decimal.simps [simp del]

definition getAsyncKey :: "MessageType \<Rightarrow> 32 word \<Rightarrow> string" where
  "getAsyncKey typ tid = ''lora:backend:async:'' @ typ @ '':'' @ decimal (unat tid)"

section \<open>The request: two goroutines, the transport and the broker\<close>

text \<open>
  The world outside the client, as far as \<^verbatim>\<open>request\<close> and \<^verbatim>\<open>writeAsync\<close> call it:
  \<^verbatim>\<open>json.Marshal\<close> of a request and of an answer, \<^verbatim>\<open>json.Unmarshal\<close> into an answer (which
  may have written part of the answer when it fails), \<^verbatim>\<open>httpClient.Post\<close> and the
  \<^verbatim>\<open>Publish\<close> command of the broker. A response carries its status code and what
  \<^verbatim>\<open>ioutil.ReadAll\<close> on its body gives.
\<close>

record response =
  StatusCode :: int
  ReadAll :: "string + bytes"

record ('p, 'a) world =
  Marshal :: "'p ReqPayload \<Rightarrow> string + bytes"
  MarshalAnswer :: "'a AnsPayload \<Rightarrow> string + bytes"
  Unmarshal :: "bytes \<Rightarrow> 'a AnsPayload \<Rightarrow> 'a AnsPayload \<times> string option"
  Post :: "httpClient \<Rightarrow> string \<Rightarrow> bytes \<Rightarrow> string + response"
  PublishCmd :: "string \<Rightarrow> bytes \<Rightarrow> string option"

text \<open>
  What the client does to the outside, in the order it happens: subscribing to and
  closing the subscription on a key, posting a body to a server, publishing on a key,
  and \<^verbatim>\<open>request\<close> returning to its caller.
\<close>

datatype event =
  EvSubscribe string
| EvClose string
| EvPost string bytes
| EvPublish string bytes
| EvReturn

text \<open>
  Program points of \<^verbatim>\<open>request\<close> (the calling goroutine) and of the goroutine it starts
  in async mode, which runs \<^verbatim>\<open>readAsync\<close> and then sends on one of the two channels.
\<close>

datatype mpc = MMarshal | MAsync | MPost | MRead | MSelect | MReturn

datatype gpc = GNone | GSubscribe | GSelect | GClose | GSend | GExit

text \<open>
  The subscription of \<^verbatim>\<open>readAsync\<close>: not yet made, open on a key with the messages
  delivered and not yet received, or closed.
\<close>

datatype pubsub = Unsubscribed | Subscribed string "bytes list" | Closed

record 'a state =
  pc_main :: mpc
  pc_listener :: gpc
  v_b :: bytes
  v_key :: string
  v_resp :: response
  v_sub :: pubsub
  v_bb :: bytes
  v_err :: "error option"
  responseChan :: "bytes option"
  errorChan :: "error option"
  v_ans :: "'a AnsPayload"
  v_ret :: "error option"
  trace :: "event list"

text \<open>
  A schedule is a list of actions: the calling goroutine takes its next step, the
  listener goroutine takes its next step (at its \<^verbatim>\<open>select\<close>: the message case), the timer
  of \<^verbatim>\<open>time.After(c.asyncTimeout)\<close> fires (at the listener's \<^verbatim>\<open>select\<close>: the timeout case),
  or some peer publishes a message on a key. An action that is not enabled leaves the
  state as it is. The \<^verbatim>\<open>go\<close> statement only makes the listener runnable: when it runs
  is the scheduler's choice.
\<close>

datatype action = Main | Listener | Timer | Publish string bytes

definition start :: "'a AnsPayload \<Rightarrow> 'a state" where
  "start a = \<lparr>pc_main = MMarshal, pc_listener = GNone, v_b = [], v_key = [],
              v_resp = \<lparr>StatusCode = 0, ReadAll = Inr []\<rparr>, v_sub = Unsubscribed,
              v_bb = [], v_err = None, responseChan = None, errorChan = None,
              v_ans = a, v_ret = None, trace = []\<rparr>"

definition returns :: "error option \<Rightarrow> 'a state \<Rightarrow> 'a state" where
  "returns e s = s\<lparr>pc_main := MReturn, v_ret := e, trace := trace s @ [EvReturn]\<rparr>"

text \<open>
  One step of \<^verbatim>\<open>request\<close>, by program point: \<open>MMarshal\<close> is \<^verbatim>\<open>json.Marshal\<close> and its error
  return; \<open>MAsync\<close> is the \<^verbatim>\<open>if c.IsAsync()\<close> block, which computes the key and starts the
  goroutine; \<open>MPost\<close> is \<^verbatim>\<open>c.httpClient.Post\<close> and its error return; \<open>MRead\<close> is the
  \<^verbatim>\<open>if !c.IsAsync()\<close> block, which reads the body and sends on a channel; \<open>MSelect\<close> is the
  final \<^verbatim>\<open>select\<close>, which blocks while both channels are empty. The \<^verbatim>\<open>ctx\<close> argument is
  used nowhere in the source and has no counterpart here; the deferred
  \<^verbatim>\<open>resp.Body.Close()\<close> touches nothing the statements below speak of and is left out.
\<close>

definition main_step :: "client \<Rightarrow> ('p, 'a) world \<Rightarrow> 'p ReqPayload \<Rightarrow> 'a state \<Rightarrow> 'a state" where
  "main_step c w pl s =
     (case pc_main s of
        MMarshal \<Rightarrow>
          (case Marshal w pl of
             Inl e \<Rightarrow> returns (Some (Wrap (Lib e) ''json marshal error'')) s
           | Inr x \<Rightarrow> s\<lparr>pc_main := MAsync, v_b := x\<rparr>)
      | MAsync \<Rightarrow>
          (if IsAsync c then
             s\<lparr>pc_main := MPost,
               v_key := getAsyncKey (MessageType (GetBasePayload pl)) (TransactionID (GetBasePayload pl)),
               pc_listener := GSubscribe\<rparr>
           else s\<lparr>pc_main := MPost\<rparr>)
      | MPost \<Rightarrow>
          (case Post w (httpClient c) (server c) (v_b s) of
             Inl e \<Rightarrow>
               returns (Some (Wrap (Lib e) ''http post error''))
                 (s\<lparr>trace := trace s @ [EvPost (server c) (v_b s)]\<rparr>)
           | Inr r \<Rightarrow> s\<lparr>pc_main := MRead, v_resp := r, trace := trace s @ [EvPost (server c) (v_b s)]\<rparr>)
      | MRead \<Rightarrow>
          (if \<not> IsAsync c then
             (case ReadAll (v_resp s) of
                Inl e \<Rightarrow> s\<lparr>pc_main := MSelect, errorChan := Some (Lib e)\<rparr>
              | Inr x \<Rightarrow> s\<lparr>pc_main := MSelect, responseChan := Some x\<rparr>)
           else s\<lparr>pc_main := MSelect\<rparr>)
      | MSelect \<Rightarrow>
          (case errorChan s of
             Some e \<Rightarrow> returns (Some e) (s\<lparr>errorChan := None\<rparr>)
           | None \<Rightarrow>
               (case responseChan s of
                  Some x \<Rightarrow>
                    (case Unmarshal w x (v_ans s) of
                       (a, Some e) \<Rightarrow>
                         returns (Some (Wrap (Lib e) ''unmarshal response error''))
                           (s\<lparr>responseChan := None, v_ans := a\<rparr>)
                     | (a, None) \<Rightarrow> returns None (s\<lparr>responseChan := None, v_ans := a\<rparr>))
                | None \<Rightarrow> s))
      | MReturn \<Rightarrow> s)"

text \<open>
  One step of \<^verbatim>\<open>readAsync\<close>: \<open>GSubscribe\<close> is \<^verbatim>\<open>c.redisClient.Subscribe(key)\<close>, taken to
  be in force as soon as it is called; \<open>GSelect\<close> is the message case of the \<^verbatim>\<open>select\<close>,
  which blocks while nothing has been delivered; \<open>GClose\<close> is the deferred
  \<^verbatim>\<open>sub.Close()\<close>, run when \<^verbatim>\<open>readAsync\<close> returns. The timeout case of the \<^verbatim>\<open>select\<close> is
  \<open>timer_step\<close>.
\<close>

definition readAsync :: "'a state \<Rightarrow> 'a state" where
  "readAsync s =
     (case pc_listener s of
        GSubscribe \<Rightarrow>
          s\<lparr>pc_listener := GSelect, v_sub := Subscribed (v_key s) [],
            trace := trace s @ [EvSubscribe (v_key s)]\<rparr>
      | GSelect \<Rightarrow>
          (case v_sub s of
             Subscribed k (msg # msgs) \<Rightarrow>
               s\<lparr>pc_listener := GClose, v_sub := Subscribed k msgs, v_bb := msg, v_err := None\<rparr>
           | _ \<Rightarrow> s)
      | GClose \<Rightarrow> s\<lparr>pc_listener := GSend, v_sub := Closed, trace := trace s @ [EvClose (v_key s)]\<rparr>
      | _ \<Rightarrow> s)"

definition timer_step :: "'a state \<Rightarrow> 'a state" where
  "timer_step s =
     (if pc_listener s = GSelect
      then s\<lparr>pc_listener := GClose, v_bb := [], v_err := Some ErrAsyncTimeout\<rparr>
      else s)"

text \<open>
  One step of the goroutine that \<^verbatim>\<open>request\<close> starts: it runs \<^verbatim>\<open>readAsync\<close> and then, at
  \<open>GSend\<close>, sends the error or the payload on its channel. Both channels have capacity
  1 and get one send at most, so the send never blocks.
\<close>

definition listener_step :: "'a state \<Rightarrow> 'a state" where
  "listener_step s =
     (case pc_listener s of
        GNone \<Rightarrow> s
      | GSend \<Rightarrow>
          (case v_err s of
             Some e \<Rightarrow> s\<lparr>pc_listener := GExit, errorChan := Some e\<rparr>
           | None \<Rightarrow> s\<lparr>pc_listener := GExit, responseChan := Some (v_bb s)\<rparr>)
      | GExit \<Rightarrow> s
      | _ \<Rightarrow> readAsync s)"

text \<open>
  The broker delivers a published message to the subscriptions open on its key at that
  moment, and to no one else: it keeps nothing for a later subscriber.
\<close>

definition publish_step :: "string \<Rightarrow> bytes \<Rightarrow> 'a state \<Rightarrow> 'a state" where
  "publish_step k msg s =
     (case v_sub s of
        Subscribed k' msgs \<Rightarrow> if k = k' then s\<lparr>v_sub := Subscribed k' (msgs @ [msg])\<rparr> else s
      | _ \<Rightarrow> s)"

fun step :: "client \<Rightarrow> ('p, 'a) world \<Rightarrow> 'p ReqPayload \<Rightarrow> 'a state \<Rightarrow> action \<Rightarrow> 'a state" where
  "step c w pl s Main = main_step c w pl s"
| "step c w pl s Listener = listener_step s"
| "step c w pl s Timer = timer_step s"
| "step c w pl s (Publish k msg) = publish_step k msg s"

definition run :: "client \<Rightarrow> ('p, 'a) world \<Rightarrow> 'p ReqPayload \<Rightarrow> 'a AnsPayload \<Rightarrow> action list \<Rightarrow> 'a state" where
  "run c w pl a sched = foldl (step c w pl) (start a) sched"

text \<open>
  \<^verbatim>\<open>request\<close> under a schedule: what it has written into \<^verbatim>\<open>ans\<close> and the error it
  returns (\<open>None\<close> when it has not returned by the end of the schedule), and the
  events so far.
\<close>

type_synonym 'a result = "('a AnsPayload \<times> error option) option \<times> event list"

definition request ::
  "client \<Rightarrow> ('p, 'a) world \<Rightarrow> action list \<Rightarrow> 'p ReqPayload \<Rightarrow> 'a AnsPayload \<Rightarrow> 'a result" where
  "request c w sched pl a =
     (let s = run c w pl a sched
      in (if pc_main s = MReturn then Some (v_ans s, v_ret s) else None, trace s))"

section \<open>The five operations\<close>

text \<open>
  \<^verbatim>\<open>var ans\<close> is the zero value of the answer type; \<open>z\<close> is the zero value of its body.
\<close>

definition zeroAns :: "'a \<Rightarrow> 'a AnsPayload" where
  "zeroAns z =
     \<lparr>AnsBasePayload = \<lparr>ProtocolVersion = [], SenderID = [], ReceiverID = [],
                         TransactionID = 0, MessageType = []\<rparr>,
      Result = \<lparr>ResultCode = [], Description = []\<rparr>,
      AnsBody = z\<rparr>"

definition response_error :: "Result \<Rightarrow> error" where
  "response_error r =
     Errorf (''response error, code: '' @ ResultCode r @ '', description: '' @ Description r)"

definition client_PRStartReq ::
  "client \<Rightarrow> ('p, 'a) world \<Rightarrow> action list \<Rightarrow> 'p ReqPayload \<Rightarrow> 'a \<Rightarrow> 'a result" where
  "client_PRStartReq c w sched pl z =
     (let pl = pl\<lparr>ReqPayload.BasePayload := (ReqPayload.BasePayload pl)
                 \<lparr>ProtocolVersion := protocolVersion c,
                  BasePayload.SenderID := senderID c,
                  BasePayload.ReceiverID := receiverID c,
                  MessageType := PRStartReq\<rparr>\<rparr>
      in case request c w sched pl (zeroAns z) of
           (None, t) \<Rightarrow> (None, t)
         | (Some (a, Some e), t) \<Rightarrow> (Some (a, Some e), t)
         | (Some (a, None), t) \<Rightarrow>
             if ResultCode (Result a) \<noteq> Success
             then (Some (a, Some (response_error (Result a))), t)
             else (Some (a, None), t))"

definition client_PRStopReq ::
  "client \<Rightarrow> ('p, 'a) world \<Rightarrow> action list \<Rightarrow> 'p ReqPayload \<Rightarrow> 'a \<Rightarrow> 'a result" where
  "client_PRStopReq c w sched pl z =
     (let pl = pl\<lparr>ReqPayload.BasePayload := (ReqPayload.BasePayload pl)
                 \<lparr>ProtocolVersion := protocolVersion c,
                  BasePayload.SenderID := senderID c,
                  BasePayload.ReceiverID := receiverID c,
                  MessageType := PRStopReq\<rparr>\<rparr>
      in case request c w sched pl (zeroAns z) of
           (None, t) \<Rightarrow> (None, t)
         | (Some (a, Some e), t) \<Rightarrow> (Some (a, Some e), t)
         | (Some (a, None), t) \<Rightarrow>
             if ResultCode (Result a) \<noteq> Success
             then (Some (a, Some (response_error (Result a))), t)
             else (Some (a, None), t))"

definition client_XmitDataReq ::
  "client \<Rightarrow> ('p, 'a) world \<Rightarrow> action list \<Rightarrow> 'p ReqPayload \<Rightarrow> 'a \<Rightarrow> 'a result" where
  "client_XmitDataReq c w sched pl z =
     (let pl = pl\<lparr>ReqPayload.BasePayload := (ReqPayload.BasePayload pl)
                 \<lparr>ProtocolVersion := protocolVersion c,
                  BasePayload.SenderID := senderID c,
                  BasePayload.ReceiverID := receiverID c,
                  MessageType := XmitDataReq\<rparr>\<rparr>
      in case request c w sched pl (zeroAns z) of
           (None, t) \<Rightarrow> (None, t)
         | (Some (a, Some e), t) \<Rightarrow> (Some (a, Some e), t)
         | (Some (a, None), t) \<Rightarrow>
             if ResultCode (Result a) \<noteq> Success
             then (Some (a, Some (response_error (Result a))), t)
             else (Some (a, None), t))"

definition client_ProfileReq ::
  "client \<Rightarrow> ('p, 'a) world \<Rightarrow> action list \<Rightarrow> 'p ReqPayload \<Rightarrow> 'a \<Rightarrow> 'a result" where
  "client_ProfileReq c w sched pl z =
     (let pl = pl\<lparr>ReqPayload.BasePayload := (ReqPayload.BasePayload pl)
                 \<lparr>ProtocolVersion := protocolVersion c,
                  BasePayload.SenderID := senderID c,
                  BasePayload.ReceiverID := receiverID c,
                  MessageType := ProfileReq\<rparr>\<rparr>
      in case request c w sched pl (zeroAns z) of
           (None, t) \<Rightarrow> (None, t)
         | (Some (a, Some e), t) \<Rightarrow> (Some (a, Some e), t)
         | (Some (a, None), t) \<Rightarrow>
             if ResultCode (Result a) \<noteq> Success
             then (Some (a, Some (response_error (Result a))), t)
             else (Some (a, None), t))"

definition client_HomeNSReq ::
  "client \<Rightarrow> ('p, 'a) world \<Rightarrow> action list \<Rightarrow> 'p ReqPayload \<Rightarrow> 'a \<Rightarrow> 'a result" where
  "client_HomeNSReq c w sched pl z =
     (let pl = pl\<lparr>ReqPayload.BasePayload := (ReqPayload.BasePayload pl)
                 \<lparr>ProtocolVersion := protocolVersion c,
                  BasePayload.SenderID := senderID c,
                  BasePayload.ReceiverID := receiverID c,
                  MessageType := HomeNSReq\<rparr>\<rparr>
      in case request c w sched pl (zeroAns z) of
           (None, t) \<Rightarrow> (None, t)
         | (Some (a, Some e), t) \<Rightarrow> (Some (a, Some e), t)
         | (Some (a, None), t) \<Rightarrow>
             if ResultCode (Result a) \<noteq> Success
             then (Some (a, Some (response_error (Result a))), t)
             else (Some (a, None), t))"

subsection \<open>Publishing an answer\<close>

text \<open>
  \<^verbatim>\<open>writeAsync\<close> calls \<^verbatim>\<open>Publish\<close> on \<^verbatim>\<open>c.redisClient\<close> without a nil check: on a client
  with no Redis client the call dereferences nil and panics (\<open>Panic\<close>).
\<close>

datatype 'r exit = Panic | Return 'r

definition writeAsync ::
  "client \<Rightarrow> ('p, 'a) world \<Rightarrow> MessageType \<Rightarrow> 'a AnsPayload \<Rightarrow> error option exit \<times> event list" where
  "writeAsync c w typ pl =
     (case MarshalAnswer w pl of
        Inl e \<Rightarrow> (Return (Some (Wrap (Lib e) ''marshal answer error'')), [])
      | Inr x \<Rightarrow>
          (let k = getAsyncKey typ (TransactionID (Answer_GetBasePayload pl))
           in case redisClient c of
                None \<Rightarrow> (Panic, [])
              | Some r \<Rightarrow>
                  (case PublishCmd w k x of
                     Some e \<Rightarrow> (Return (Some (Wrap (Lib e) ''publish answer error'')), [EvPublish k x])
                   | None \<Rightarrow> (Return None, [EvPublish k x]))))"

definition HandleAsyncPRStartAns ::
  "client \<Rightarrow> ('p, 'a) world \<Rightarrow> 'a AnsPayload \<Rightarrow> error option exit \<times> event list" where
  "HandleAsyncPRStartAns c w pl = writeAsync c w PRStartReq pl"

definition HandleAsyncPRStopAns ::
  "client \<Rightarrow> ('p, 'a) world \<Rightarrow> 'a AnsPayload \<Rightarrow> error option exit \<times> event list" where
  "HandleAsyncPRStopAns c w pl = writeAsync c w PRStopReq pl"

definition HandleAsyncXmitDataAns ::
  "client \<Rightarrow> ('p, 'a) world \<Rightarrow> 'a AnsPayload \<Rightarrow> error option exit \<times> event list" where
  "HandleAsyncXmitDataAns c w pl = writeAsync c w XmitDataReq pl"

definition HandleAsyncProfileAns ::
  "client \<Rightarrow> ('p, 'a) world \<Rightarrow> 'a AnsPayload \<Rightarrow> error option exit \<times> event list" where
  "HandleAsyncProfileAns c w pl = writeAsync c w ProfileReq pl"

definition HandleAsyncHomeNSAns ::
  "client \<Rightarrow> ('p, 'a) world \<Rightarrow> 'a AnsPayload \<Rightarrow> error option exit \<times> event list" where
  "HandleAsyncHomeNSAns c w pl = writeAsync c w HomeNSReq pl"

section \<open>Sample configurations\<close>

text \<open>
  A transport and a codec to run the client on: the codec writes the base fields of a
  request (and an answer) separated by \<^verbatim>\<open>;\<close>, and decodes a message of the form
  \<^verbatim>\<open>code/description\<close> into the result of the answer. A message with no \<^verbatim>\<open>/\<close> does not
  decode.
\<close>

definition sample_encode :: "BasePayload \<Rightarrow> bytes" where
  "sample_encode bp =
     ProtocolVersion bp @ '';'' @ BasePayload.SenderID bp @ '';'' @ BasePayload.ReceiverID bp
       @ '';'' @ MessageType bp @ '';'' @ decimal (unat (TransactionID bp))"

definition sample_decode :: "bytes \<Rightarrow> unit AnsPayload \<Rightarrow> unit AnsPayload \<times> string option" where
  "sample_decode x a =
     (if CHR ''/'' \<in> set x
      then (a\<lparr>Result := \<lparr>ResultCode = takeWhile (\<lambda>ch. ch \<noteq> CHR ''/'') x,
                           Description = tl (dropWhile (\<lambda>ch. ch \<noteq> CHR ''/'') x)\<rparr>\<rparr>, None)
      else (a, Some ''unexpected end of JSON input''))"

definition sample_world :: "(string + response) \<Rightarrow> (unit, unit) world" where
  "sample_world r =
     \<lparr>Marshal = (\<lambda>pl. Inr (sample_encode (GetBasePayload pl))),
      MarshalAnswer = (\<lambda>pl. Inr (sample_encode (Answer_GetBasePayload pl))),
      Unmarshal = sample_decode,
      Post = (\<lambda>h srv x. r),
      PublishCmd = (\<lambda>k x. None)\<rparr>"

definition sample_config :: ClientConfig where
  "sample_config =
     \<lparr>SenderID = ''010203'', ReceiverID = ''040506'', Server = ''https://peer/'',
      CACert = [], TLSCert = [], TLSKey = [], RedisClient = None, AsyncTimeout = 0\<rparr>"

definition sample_system :: system where
  "sample_system =
     \<lparr>ReadFile = (\<lambda>f. Inr ''PEM''),
      AppendCertsFromPEM = (\<lambda>x. True),
      LoadX509KeyPair = (\<lambda>c k. Inr (''CERT'', ''KEY''))\<rparr>"

definition sync_client :: client where
  "sync_client =
     \<lparr>server = ''https://peer/'', httpClient = DefaultClient, protocolVersion = ''1.0'',
      senderID = ''010203'', receiverID = ''040506'', redisClient = None, asyncTimeout = 0\<rparr>"

definition async_client :: client where
  "async_client = sync_client\<lparr>redisClient := Some 0, asyncTimeout := 2000000000\<rparr>"

definition sample_request :: "32 word \<Rightarrow> unit ReqPayload" where
  "sample_request tid =
     \<lparr>ReqPayload.BasePayload = \<lparr>ProtocolVersion = [], SenderID = [], ReceiverID = [],
                                 TransactionID = tid, MessageType = []\<rparr>,
      Body = ()\<rparr>"

definition sample_answer :: "ResultCode \<Rightarrow> string \<Rightarrow> unit AnsPayload" where
  "sample_answer code d = (zeroAns ())\<lparr>Result := \<lparr>ResultCode = code, Description = d\<rparr>\<rparr>"

definition tls_config :: ClientConfig where
  "tls_config = sample_config\<lparr>CACert := ''ca.pem'', RedisClient := Some 1, AsyncTimeout := 2000000000\<rparr>"

definition tls_client :: client where
  "tls_client =
     \<lparr>server = ''https://peer/'',
      httpClient = Transport \<lparr>RootCAs = Some [''PEM''], Certificates = []\<rparr>,
      protocolVersion = [], senderID = [], receiverID = [], redisClient = None, asyncTimeout = 0\<rparr>"

definition refused :: "(unit, unit) world" where
  "refused = sample_world (Inl ''connection refused'')"

definition replies :: "int \<Rightarrow> bytes \<Rightarrow> (unit, unit) world" where
  "replies n body = sample_world (Inr \<lparr>StatusCode = n, ReadAll = Inr body\<rparr>)"

section \<open>Vocabulary of the statements\<close>

text \<open>
  A payload with the four base fields an operation sets, and the payload an operation
  of client \<open>c\<close> hands to \<^verbatim>\<open>request\<close>.
\<close>

definition stamp :: "string \<Rightarrow> string \<Rightarrow> string \<Rightarrow> MessageType \<Rightarrow> 'p ReqPayload \<Rightarrow> 'p ReqPayload" where
  "stamp pv sid rid typ pl =
     pl\<lparr>ReqPayload.BasePayload := (ReqPayload.BasePayload pl)
          \<lparr>ProtocolVersion := pv, BasePayload.SenderID := sid,
           BasePayload.ReceiverID := rid, MessageType := typ\<rparr>\<rparr>"

definition stamped_by :: "client \<Rightarrow> MessageType \<Rightarrow> 'p ReqPayload \<Rightarrow> 'p ReqPayload" where
  "stamped_by c typ pl = stamp (protocolVersion c) (senderID c) (receiverID c) typ pl"

text \<open>The correlation key of a request, as \<^verbatim>\<open>request\<close> computes it.\<close>

definition key_of :: "'p ReqPayload \<Rightarrow> string" where
  "key_of pl = getAsyncKey (MessageType (GetBasePayload pl)) (TransactionID (GetBasePayload pl))"

text \<open>
  \<^verbatim>\<open>json.Unmarshal\<close> of a body into \<open>a\<close>, with the error wrapped as \<^verbatim>\<open>request\<close> wraps it.
\<close>

definition decoded :: "('p, 'a) world \<Rightarrow> bytes \<Rightarrow> 'a AnsPayload \<Rightarrow> 'a AnsPayload \<times> error option" where
  "decoded w x a =
     (case Unmarshal w x a of
        (a', Some e) \<Rightarrow> (a', Some (Wrap (Lib e) ''unmarshal response error''))
      | (a', None) \<Rightarrow> (a', None))"

text \<open>The number of steps a schedule gives to the calling goroutine.\<close>

definition mains :: "action list \<Rightarrow> nat" where
  "mains sched = length (filter (\<lambda>act. act = Main) sched)"

text \<open>Reading a decimal numeral back, the inverse of \<open>decimal\<close>.\<close>

definition undecimal :: "string \<Rightarrow> nat" where
  "undecimal ds = foldl (\<lambda>a ch. 10 * a + (of_char ch - 48)) 0 ds"

section \<open>Invariants of a run\<close>

text \<open>
  Each predicate below holds in every state a schedule can reach, under the
  assumptions on the world named with it. The order of the program points of the
  calling goroutine is \<open>rank\<close>.
\<close>

definition rank :: "mpc \<Rightarrow> nat" where
  "rank pc = (case pc of MMarshal \<Rightarrow> 0 | MAsync \<Rightarrow> 1 | MPost \<Rightarrow> 2 | MRead \<Rightarrow> 3 | MSelect \<Rightarrow> 4 | MReturn \<Rightarrow> 5)"

definition chans_empty :: "'a state \<Rightarrow> bool" where
  "chans_empty s \<longleftrightarrow> responseChan s = None \<and> errorChan s = None"

text \<open>
  Every body posted is the marshalled request, and every subscription is on the key
  of the request.
\<close>

definition posted :: "client \<Rightarrow> ('p, 'a) world \<Rightarrow> 'p ReqPayload \<Rightarrow> 'a state \<Rightarrow> bool" where
  "posted c w pl s \<longleftrightarrow>
     (pc_main s \<in> {MAsync, MPost, MRead, MSelect} \<longrightarrow> Marshal w pl = Inr (v_b s)) \<and>
     (\<forall>srv x. EvPost srv x \<in> set (trace s) \<longrightarrow> srv = server c \<and> Marshal w pl = Inr x)"

definition keyed :: "client \<Rightarrow> 'p ReqPayload \<Rightarrow> 'a state \<Rightarrow> bool" where
  "keyed c pl s \<longleftrightarrow>
     (pc_listener s \<noteq> GNone \<longrightarrow> IsAsync c \<and> v_key s = key_of pl) \<and>
     (\<forall>k. EvSubscribe k \<in> set (trace s) \<longrightarrow> IsAsync c \<and> k = key_of pl) \<and>
     (\<forall>k. EvClose k \<in> set (trace s) \<longrightarrow> IsAsync c \<and> k = key_of pl) \<and>
     (\<forall>k ms. v_sub s = Subscribed k ms \<longrightarrow> IsAsync c \<and> k = key_of pl)"

text \<open>
  Sync mode, when the post and the read of the body succeed with response \<open>r\<close> and
  body \<open>y\<close>.
\<close>

definition sync_ok :: "('p, 'a) world \<Rightarrow> 'a AnsPayload \<Rightarrow> bytes \<Rightarrow> response \<Rightarrow> bytes \<Rightarrow> 'a state \<Rightarrow> bool" where
  "sync_ok w a x r y s \<longleftrightarrow>
     pc_listener s = GNone \<and> v_sub s = Unsubscribed \<and>
     (case pc_main s of
        MMarshal \<Rightarrow> v_ans s = a \<and> chans_empty s
      | MAsync \<Rightarrow> v_b s = x \<and> v_ans s = a \<and> chans_empty s
      | MPost \<Rightarrow> v_b s = x \<and> v_ans s = a \<and> chans_empty s
      | MRead \<Rightarrow> v_resp s = r \<and> v_ans s = a \<and> chans_empty s
      | MSelect \<Rightarrow> errorChan s = None \<and> responseChan s = Some y \<and> v_ans s = a
      | MReturn \<Rightarrow> (v_ans s, v_ret s) = decoded w y a)"

text \<open>Either mode, when the post fails with \<open>e\<close>.\<close>

definition post_failed :: "'a AnsPayload \<Rightarrow> bytes \<Rightarrow> string \<Rightarrow> 'a state \<Rightarrow> bool" where
  "post_failed a x e s \<longleftrightarrow>
     v_ans s = a \<and>
     (case pc_main s of
        MMarshal \<Rightarrow> True
      | MAsync \<Rightarrow> v_b s = x
      | MPost \<Rightarrow> v_b s = x
      | MRead \<Rightarrow> False
      | MSelect \<Rightarrow> False
      | MReturn \<Rightarrow> v_ret s = Some (Wrap (Lib e) ''http post error''))"

text \<open>
  No delivery within the window: in every state that the schedule passes through, the
  listener, when it waits in its \<^verbatim>\<open>select\<close>, has no message in its subscription. A
  message published before the subscription exists, on another key, or after the
  listener has left the \<^verbatim>\<open>select\<close> is not such a delivery.
\<close>

definition waiting_empty :: "'a state \<Rightarrow> bool" where
  "waiting_empty s =
     (case pc_listener s of
        GSelect \<Rightarrow> (case v_sub s of Subscribed k (msg # msgs) \<Rightarrow> False | _ \<Rightarrow> True)
      | _ \<Rightarrow> True)"

definition nothing_delivered ::
  "client \<Rightarrow> ('p, 'a) world \<Rightarrow> 'p ReqPayload \<Rightarrow> 'a AnsPayload \<Rightarrow> action list \<Rightarrow> bool" where
  "nothing_delivered c w pl a sched = list_all (\<lambda>p. waiting_empty (run c w pl a p)) (prefixes sched)"

text \<open>
  Async mode with no delivery: the listener can leave its \<^verbatim>\<open>select\<close> through the timeout
  case only. The first predicate is about schedules with no publication on the key
  at all, the second about schedules with no delivery.
\<close>

definition undelivered :: "'p ReqPayload \<Rightarrow> 'a AnsPayload \<Rightarrow> 'a state \<Rightarrow> bool" where
  "undelivered pl a s \<longleftrightarrow>
     v_ans s = a \<and> responseChan s = None \<and>
     (\<forall>e. errorChan s = Some e \<longrightarrow> e = ErrAsyncTimeout) \<and>
     (\<forall>k ms. v_sub s = Subscribed k ms \<longrightarrow> k = key_of pl \<and> ms = []) \<and>
     (pc_listener s \<in> {GClose, GSend, GExit} \<longrightarrow> v_bb s = [] \<and> v_err s = Some ErrAsyncTimeout) \<and>
     (pc_listener s \<noteq> GNone \<longrightarrow> v_key s = key_of pl)"

definition timed :: "'a AnsPayload \<Rightarrow> 'a state \<Rightarrow> bool" where
  "timed a s \<longleftrightarrow>
     v_ans s = a \<and> responseChan s = None \<and>
     (\<forall>e. errorChan s = Some e \<longrightarrow> e = ErrAsyncTimeout) \<and>
     (pc_listener s \<in> {GClose, GSend, GExit} \<longrightarrow> v_bb s = [] \<and> v_err s = Some ErrAsyncTimeout)"

definition timed_out :: "bytes \<Rightarrow> 'a state \<Rightarrow> bool" where
  "timed_out x s \<longleftrightarrow>
     (pc_main s \<in> {MAsync, MPost} \<longrightarrow> v_b s = x) \<and>
     (pc_main s = MReturn \<longrightarrow> v_ret s = Some ErrAsyncTimeout)"

text \<open>
  Async mode, when the post succeeds: the calling goroutine returns only after the
  listener has closed its subscription and sent its result.
\<close>

definition released :: "bytes \<Rightarrow> 'a state \<Rightarrow> bool" where
  "released x s \<longleftrightarrow>
     (pc_main s \<in> {MMarshal, MAsync} \<longrightarrow> pc_listener s = GNone) \<and>
     (pc_main s \<in> {MAsync, MPost} \<longrightarrow> v_b s = x) \<and>
     (pc_listener s \<noteq> GExit \<longrightarrow> chans_empty s) \<and>
     (pc_listener s \<in> {GSend, GExit} \<longrightarrow> v_sub s = Closed) \<and>
     (pc_main s = MReturn \<longrightarrow> pc_listener s = GExit)"

text \<open>
  The two channels never both hold a value, so the \<^verbatim>\<open>select\<close> of \<^verbatim>\<open>request\<close> has one ready
  case at most and the order in which \<open>main_step\<close> looks at them does not matter.
\<close>

definition one_ready :: "client \<Rightarrow> 'a state \<Rightarrow> bool" where
  "one_ready c s \<longleftrightarrow>
     (pc_main s \<in> {MMarshal, MAsync} \<longrightarrow> pc_listener s = GNone) \<and>
     (IsAsync c \<longrightarrow> pc_listener s \<noteq> GExit \<longrightarrow> chans_empty s) \<and>
     (\<not> IsAsync c \<longrightarrow> pc_listener s = GNone \<and> (pc_main s \<in> {MMarshal, MAsync, MPost, MRead} \<longrightarrow> chans_empty s)) \<and>
     (responseChan s = None \<or> errorChan s = None)"


section \<open>Lemmas\<close>

subsection \<open>The key builder\<close>

lemma of_char_digit: "d < 10 \<Longrightarrow> (of_char (digit d) :: nat) = 48 + d"
  by (simp add: digit_def)

lemma undecimal_snoc: "undecimal (ds @ [ch]) = 10 * undecimal ds + (of_char ch - 48)"
  by (simp add: undecimal_def)

lemma undecimal_decimal: "undecimal (decimal n) = n"
proof (induction n rule: decimal.induct)
  case (1 n)
  show ?case
  proof (cases "n < 10")
    case True
    then show ?thesis
      by (subst decimal.simps) (simp add: undecimal_def of_char_digit)
  next
    case False
    then have "undecimal (decimal (n div 10)) = n div 10"
      using "1" by simp
    with False show ?thesis
      by (subst decimal.simps) (simp add: undecimal_snoc of_char_digit)
  qed
qed

lemma decimal_inj: "decimal m = decimal n \<Longrightarrow> m = n"
  by (metis undecimal_decimal)

lemma digit_not_colon: "d < 10 \<Longrightarrow> digit d \<noteq> CHR '':''"
proof
  assume d: "d < 10" and "digit d = CHR '':''"
  then have "(of_char (digit d) :: nat) = of_char (CHR '':'')" by simp
  with d show False by (simp add: of_char_digit)
qed

lemma colon_notin_decimal: "CHR '':'' \<notin> set (decimal n)"
proof (induction n rule: decimal.induct)
  case (1 n)
  show ?case
  proof (cases "n < 10")
    case True
    then show ?thesis
      using digit_not_colon [of n] by (subst decimal.simps) auto
  next
    case False
    then have "CHR '':'' \<notin> set (decimal (n div 10))"
      using "1" by simp
    with False show ?thesis
      using digit_not_colon [of "n mod 10"] by (subst decimal.simps) auto
  qed
qed

lemma split_last_sep:
  assumes "xs @ c # ys = xs' @ c # ys'" and "c \<notin> set ys" and "c \<notin> set ys'"
  shows "xs = xs' \<and> ys = ys'"
  using assms
proof (induction xs arbitrary: xs')
  case Nil
  then show ?case by (cases xs') auto
next
  case (Cons x xs)
  then show ?case by (cases xs') auto
qed

lemma getAsyncKey_inj:
  assumes "getAsyncKey typ tid = getAsyncKey typ' tid'"
  shows "typ = typ' \<and> tid = tid'"
proof -
  from assms have "typ @ CHR '':'' # decimal (unat tid) = typ' @ CHR '':'' # decimal (unat tid')"
    by (simp add: getAsyncKey_def)
  then have "typ = typ' \<and> decimal (unat tid) = decimal (unat tid')"
    by (rule split_last_sep) (rule colon_notin_decimal)+
  then show ?thesis
    by (auto dest: decimal_inj simp: word_unat_eq_iff)
qed

subsection \<open>Runs and invariants\<close>

lemma run_Nil: "run c w pl a [] = start a"
  by (simp add: run_def)

lemma run_snoc: "run c w pl a (sched @ [act]) = step c w pl (run c w pl a sched) act"
  by (simp add: run_def)

lemma run_invariant:
  assumes "P (start a)"
    and "\<And>s act. act \<in> set sched \<Longrightarrow> P s \<Longrightarrow> P (step c w pl s act)"
  shows "P (run c w pl a sched)"
  using assms(2)
proof (induction sched rule: rev_induct)
  case Nil
  show ?case using assms(1) by (simp add: run_Nil)
next
  case (snoc act sched)
  then show ?case by (simp add: run_snoc)
qed

lemma pc_main_other:
  "pc_main (listener_step s) = pc_main s"
  "pc_main (timer_step s) = pc_main s"
  "pc_main (publish_step k m s) = pc_main s"
  by (simp_all add: listener_step_def readAsync_def timer_step_def publish_step_def
      split: gpc.splits option.splits pubsub.splits list.splits)

lemma other_fields:
  "v_ans (listener_step s) = v_ans s" "v_ans (timer_step s) = v_ans s" "v_ans (publish_step k m s) = v_ans s"
  "v_ret (listener_step s) = v_ret s" "v_ret (timer_step s) = v_ret s" "v_ret (publish_step k m s) = v_ret s"
  "v_b (listener_step s) = v_b s" "v_b (timer_step s) = v_b s" "v_b (publish_step k m s) = v_b s"
  by (simp_all add: listener_step_def readAsync_def timer_step_def publish_step_def
      split: gpc.splits option.splits pubsub.splits list.splits)

lemma rank_5: "rank pc = 5 \<longleftrightarrow> pc = MReturn"
  by (cases pc) (simp_all add: rank_def)

lemma request_trace: "snd (request c w sched pl a) = trace (run c w pl a sched)"
  by (simp add: request_def Let_def)

lemma request_result:
  "fst (request c w sched pl a) =
     (if pc_main (run c w pl a sched) = MReturn
      then Some (v_ans (run c w pl a sched), v_ret (run c w pl a sched)) else None)"
  by (simp add: request_def Let_def)

subsection \<open>What is posted and what is subscribed\<close>

lemma posted_start: "posted c w pl (start a)"
  by (simp add: posted_def start_def)

lemma posted_main: "posted c w pl s \<Longrightarrow> posted c w pl (main_step c w pl s)"
  by (cases "pc_main s")
    (auto simp: posted_def main_step_def returns_def split: sum.splits option.splits prod.splits)

lemma posted_listener: "posted c w pl s \<Longrightarrow> posted c w pl (listener_step s)"
  by (cases "pc_listener s")
    (auto simp: posted_def listener_step_def readAsync_def split: option.splits pubsub.splits list.splits)

lemma posted_timer: "posted c w pl s \<Longrightarrow> posted c w pl (timer_step s)"
  by (simp add: posted_def timer_step_def)

lemma posted_publish: "posted c w pl s \<Longrightarrow> posted c w pl (publish_step k m s)"
  by (simp add: posted_def publish_step_def split: pubsub.splits)

lemma posted_step: "posted c w pl s \<Longrightarrow> posted c w pl (step c w pl s act)"
  by (cases act) (simp_all add: posted_main posted_listener posted_timer posted_publish)

lemma posted_run: "posted c w pl (run c w pl a sched)"
  by (rule run_invariant) (auto intro: posted_start posted_step)

lemma keyed_start: "keyed c pl (start a)"
  by (simp add: keyed_def start_def)

lemma keyed_main: "keyed c pl s \<Longrightarrow> keyed c pl (main_step c w pl s)"
  by (cases "pc_main s")
    (auto simp: keyed_def main_step_def returns_def key_of_def split: sum.splits option.splits prod.splits)

lemma keyed_listener: "keyed c pl s \<Longrightarrow> keyed c pl (listener_step s)"
  by (cases "pc_listener s")
    (auto simp: keyed_def listener_step_def readAsync_def split: option.splits pubsub.splits list.splits)

lemma keyed_timer: "keyed c pl s \<Longrightarrow> keyed c pl (timer_step s)"
  by (simp add: keyed_def timer_step_def)

lemma keyed_publish: "keyed c pl s \<Longrightarrow> keyed c pl (publish_step k m s)"
  by (auto simp: keyed_def publish_step_def split: pubsub.splits)

lemma keyed_step: "keyed c pl s \<Longrightarrow> keyed c pl (step c w pl s act)"
  by (cases act) (simp_all add: keyed_main keyed_listener keyed_timer keyed_publish)

lemma keyed_run: "keyed c pl (run c w pl a sched)"
  by (rule run_invariant) (auto intro: keyed_start keyed_step)

lemma request_posts:
  "EvPost srv x \<in> set (snd (request c w sched pl a)) \<Longrightarrow> srv = server c \<and> Marshal w pl = Inr x"
  using posted_run [of c w pl a sched] by (simp add: request_trace posted_def)

lemma request_subscribes:
  "EvSubscribe k \<in> set (snd (request c w sched pl a)) \<Longrightarrow> IsAsync c \<and> k = key_of pl"
  using keyed_run [of c pl w a sched] by (simp add: request_trace keyed_def)

lemma key_of_stamped: "key_of (stamped_by c typ pl) = getAsyncKey typ (TransactionID (GetBasePayload pl))"
  by (simp add: key_of_def stamped_by_def stamp_def GetBasePayload_def)

subsection \<open>The operations in terms of request\<close>

lemma dispatch_trace:
  "snd (client_PRStartReq c w sched pl z) = snd (request c w sched (stamped_by c PRStartReq pl) (zeroAns z))"
  "snd (client_PRStopReq c w sched pl z) = snd (request c w sched (stamped_by c PRStopReq pl) (zeroAns z))"
  "snd (client_XmitDataReq c w sched pl z) = snd (request c w sched (stamped_by c XmitDataReq pl) (zeroAns z))"
  "snd (client_ProfileReq c w sched pl z) = snd (request c w sched (stamped_by c ProfileReq pl) (zeroAns z))"
  "snd (client_HomeNSReq c w sched pl z) = snd (request c w sched (stamped_by c HomeNSReq pl) (zeroAns z))"
  by (simp_all add: client_PRStartReq_def client_PRStopReq_def client_XmitDataReq_def
      client_ProfileReq_def client_HomeNSReq_def stamped_by_def stamp_def Let_def
      split: prod.splits option.splits)

lemma dispatch_result:
  "fst (client_PRStartReq c w sched pl z) =
     (case fst (request c w sched (stamped_by c PRStartReq pl) (zeroAns z)) of
        None \<Rightarrow> None
      | Some (a, Some e) \<Rightarrow> Some (a, Some e)
      | Some (a, None) \<Rightarrow>
          Some (a, if ResultCode (Result a) \<noteq> Success then Some (response_error (Result a)) else None))"
  "fst (client_PRStopReq c w sched pl z) =
     (case fst (request c w sched (stamped_by c PRStopReq pl) (zeroAns z)) of
        None \<Rightarrow> None
      | Some (a, Some e) \<Rightarrow> Some (a, Some e)
      | Some (a, None) \<Rightarrow>
          Some (a, if ResultCode (Result a) \<noteq> Success then Some (response_error (Result a)) else None))"
  "fst (client_XmitDataReq c w sched pl z) =
     (case fst (request c w sched (stamped_by c XmitDataReq pl) (zeroAns z)) of
        None \<Rightarrow> None
      | Some (a, Some e) \<Rightarrow> Some (a, Some e)
      | Some (a, None) \<Rightarrow>
          Some (a, if ResultCode (Result a) \<noteq> Success then Some (response_error (Result a)) else None))"
  "fst (client_ProfileReq c w sched pl z) =
     (case fst (request c w sched (stamped_by c ProfileReq pl) (zeroAns z)) of
        None \<Rightarrow> None
      | Some (a, Some e) \<Rightarrow> Some (a, Some e)
      | Some (a, None) \<Rightarrow>
          Some (a, if ResultCode (Result a) \<noteq> Success then Some (response_error (Result a)) else None))"
  "fst (client_HomeNSReq c w sched pl z) =
     (case fst (request c w sched (stamped_by c HomeNSReq pl) (zeroAns z)) of
        None \<Rightarrow> None
      | Some (a, Some e) \<Rightarrow> Some (a, Some e)
      | Some (a, None) \<Rightarrow>
          Some (a, if ResultCode (Result a) \<noteq> Success then Some (response_error (Result a)) else None))"
  by (simp_all add: client_PRStartReq_def client_PRStopReq_def client_XmitDataReq_def
      client_ProfileReq_def client_HomeNSReq_def stamped_by_def stamp_def Let_def
      split: prod.splits option.splits)

subsection \<open>Construction\<close>


lemma NewClient_tls:
  assumes "NewClient sys pv config = Inr c"
    and "CACert config \<noteq> [] \<or> TLSCert config \<noteq> [] \<or> TLSKey config \<noteq> []"
  shows "protocolVersion c = [] \<and> senderID c = [] \<and> receiverID c = [] \<and> redisClient c = None
    \<and> asyncTimeout c = 0 \<and> server c = Server config"
  using assms by (auto simp: NewClient_def split: sum.splits if_splits)

subsection \<open>Sync mode\<close>

lemma sync_ok_start: "sync_ok w a x r y (start a)"
  by (simp add: sync_ok_def start_def chans_empty_def)

lemma sync_ok_main:
  assumes "\<not> IsAsync c" and "Marshal w pl = Inr x"
    and "Post w (httpClient c) (server c) x = Inr r" and "ReadAll r = Inr y"
  shows "sync_ok w a x r y s \<Longrightarrow> sync_ok w a x r y (main_step c w pl s)"
  using assms
  by (cases "pc_main s")
    (auto simp: sync_ok_def main_step_def returns_def chans_empty_def decoded_def
      split: prod.splits option.splits)

lemma sync_ok_other:
  assumes "sync_ok w a x r y s"
  shows "listener_step s = s" and "timer_step s = s" and "publish_step k m s = s"
  using assms by (simp_all add: sync_ok_def listener_step_def readAsync_def timer_step_def publish_step_def)

lemma sync_ok_step:
  assumes "\<not> IsAsync c" and "Marshal w pl = Inr x"
    and "Post w (httpClient c) (server c) x = Inr r" and "ReadAll r = Inr y"
  shows "sync_ok w a x r y s \<Longrightarrow> sync_ok w a x r y (step c w pl s act)"
  by (cases act) (simp_all add: sync_ok_main [OF assms] sync_ok_other)

lemma sync_ok_run:
  assumes "\<not> IsAsync c" and "Marshal w pl = Inr x"
    and "Post w (httpClient c) (server c) x = Inr r" and "ReadAll r = Inr y"
  shows "sync_ok w a x r y (run c w pl a sched)"
  by (rule run_invariant) (auto intro: sync_ok_start sync_ok_step [OF assms])

lemma sync_ok_rank_main:
  assumes "\<not> IsAsync c" and "Marshal w pl = Inr x"
    and "Post w (httpClient c) (server c) x = Inr r" and "ReadAll r = Inr y"
  shows "sync_ok w a x r y s \<Longrightarrow> rank (pc_main (main_step c w pl s)) = min 5 (Suc (rank (pc_main s)))"
  using assms
  by (cases "pc_main s")
    (auto simp: sync_ok_def main_step_def returns_def chans_empty_def rank_def
      split: prod.splits option.splits)

lemma sync_ok_rank:
  assumes "\<not> IsAsync c" and "Marshal w pl = Inr x"
    and "Post w (httpClient c) (server c) x = Inr r" and "ReadAll r = Inr y"
  shows "rank (pc_main (run c w pl a sched)) = min 5 (mains sched)"
proof (induction sched rule: rev_induct)
  case Nil
  show ?case by (simp add: run_Nil start_def rank_def mains_def)
next
  case (snoc act sched)
  show ?case
  proof (cases act)
    case Main
    with snoc sync_ok_rank_main [OF assms sync_ok_run [OF assms, of a sched]] show ?thesis
      by (simp add: run_snoc mains_def)
  next
    case Listener
    with snoc show ?thesis by (simp add: run_snoc mains_def pc_main_other)
  next
    case Timer
    with snoc show ?thesis by (simp add: run_snoc mains_def pc_main_other)
  next
    case (Publish k msg)
    with snoc show ?thesis by (simp add: run_snoc mains_def pc_main_other)
  qed
qed

subsection \<open>A failing post\<close>

lemma post_failed_start: "post_failed a x e (start a)"
  by (simp add: post_failed_def start_def)

lemma post_failed_main:
  assumes "Marshal w pl = Inr x" and "Post w (httpClient c) (server c) x = Inl e"
  shows "post_failed a x e s \<Longrightarrow> post_failed a x e (main_step c w pl s)"
  using assms
  by (cases "pc_main s") (auto simp: post_failed_def main_step_def returns_def)

lemma post_failed_step:
  assumes "Marshal w pl = Inr x" and "Post w (httpClient c) (server c) x = Inl e"
  shows "post_failed a x e s \<Longrightarrow> post_failed a x e (step c w pl s act)"
  by (cases act)
    (simp_all add: post_failed_main [OF assms],
      simp_all add: post_failed_def pc_main_other other_fields split: mpc.splits)

lemma post_failed_run:
  assumes "Marshal w pl = Inr x" and "Post w (httpClient c) (server c) x = Inl e"
  shows "post_failed a x e (run c w pl a sched)"
  by (rule run_invariant) (auto intro: post_failed_start post_failed_step [OF assms])

lemma post_failed_rank_main:
  assumes "Marshal w pl = Inr x" and "Post w (httpClient c) (server c) x = Inl e"
  shows "post_failed a x e s \<Longrightarrow>
    rank (pc_main (main_step c w pl s)) = (if rank (pc_main s) < 2 then Suc (rank (pc_main s)) else 5)"
  using assms
  by (cases "pc_main s") (auto simp: post_failed_def main_step_def returns_def rank_def)

lemma post_failed_rank:
  assumes "Marshal w pl = Inr x" and "Post w (httpClient c) (server c) x = Inl e"
  shows "rank (pc_main (run c w pl a sched)) = (if mains sched < 3 then mains sched else 5)"
proof (induction sched rule: rev_induct)
  case Nil
  show ?case by (simp add: run_Nil start_def rank_def mains_def)
next
  case (snoc act sched)
  show ?case
  proof (cases act)
    case Main
    with snoc post_failed_rank_main [OF assms post_failed_run [OF assms, of a sched]] show ?thesis
      by (auto simp: run_snoc mains_def)
  next
    case Listener
    with snoc show ?thesis by (simp add: run_snoc mains_def pc_main_other)
  next
    case Timer
    with snoc show ?thesis by (simp add: run_snoc mains_def pc_main_other)
  next
    case (Publish k msg)
    with snoc show ?thesis by (simp add: run_snoc mains_def pc_main_other)
  qed
qed

subsection \<open>No delivery\<close>

lemma undelivered_start: "undelivered pl a (start a)"
  by (simp add: undelivered_def start_def)

lemma undelivered_main:
  assumes "IsAsync c"
  shows "undelivered pl a s \<Longrightarrow> undelivered pl a (main_step c w pl s)"
  using assms
  by (cases "pc_main s")
    (simp_all add: undelivered_def main_step_def returns_def key_of_def split: sum.splits option.splits)

lemma undelivered_listener: "undelivered pl a s \<Longrightarrow> undelivered pl a (listener_step s)"
  by (cases "pc_listener s")
    (simp_all add: undelivered_def listener_step_def readAsync_def split: pubsub.splits list.splits option.splits,
      blast)

lemma undelivered_timer: "undelivered pl a s \<Longrightarrow> undelivered pl a (timer_step s)"
  by (simp add: undelivered_def timer_step_def)

lemma undelivered_publish:
  "k \<noteq> key_of pl \<Longrightarrow> undelivered pl a s \<Longrightarrow> undelivered pl a (publish_step k m s)"
  by (simp add: undelivered_def publish_step_def split: pubsub.splits, blast)

lemma undelivered_step:
  assumes "IsAsync c" and "\<forall>m. act \<noteq> Publish (key_of pl) m"
  shows "undelivered pl a s \<Longrightarrow> undelivered pl a (step c w pl s act)"
  using assms(2)
  by (cases act)
    (auto simp: undelivered_main [OF assms(1)] undelivered_listener undelivered_timer undelivered_publish)

lemma undelivered_run:
  assumes "IsAsync c" and "\<forall>m. Publish (key_of pl) m \<notin> set sched"
  shows "undelivered pl a (run c w pl a sched)"
proof (rule run_invariant)
  show "undelivered pl a (start a)" by (rule undelivered_start)
next
  fix s act
  assume "act \<in> set sched" and "undelivered pl a s"
  with assms show "undelivered pl a (step c w pl s act)"
    by (intro undelivered_step) auto
qed

lemma nothing_delivered_snoc:
  "nothing_delivered c w pl a (sched @ [act]) \<longleftrightarrow>
     nothing_delivered c w pl a sched \<and> waiting_empty (run c w pl a (sched @ [act]))"
  by (simp add: nothing_delivered_def)

lemma nothing_delivered_last:
  "nothing_delivered c w pl a sched \<Longrightarrow> waiting_empty (run c w pl a sched)"
  by (simp add: nothing_delivered_def list_all_iff in_set_prefixes)

lemma timed_start: "timed a (start a)"
  by (simp add: timed_def start_def)

lemma timed_main:
  assumes "IsAsync c"
  shows "timed a s \<Longrightarrow> timed a (main_step c w pl s)"
  using assms
  by (cases "pc_main s")
    (simp_all add: timed_def main_step_def returns_def split: sum.splits option.splits)

lemma timed_listener: "waiting_empty s \<Longrightarrow> timed a s \<Longrightarrow> timed a (listener_step s)"
  by (cases "pc_listener s")
    (simp_all add: timed_def waiting_empty_def listener_step_def readAsync_def
      split: pubsub.splits list.splits option.splits)

lemma timed_timer: "timed a s \<Longrightarrow> timed a (timer_step s)"
  by (simp add: timed_def timer_step_def)

lemma timed_publish: "timed a s \<Longrightarrow> timed a (publish_step k m s)"
  by (simp add: timed_def publish_step_def split: pubsub.splits)

lemma timed_step:
  assumes "IsAsync c" and "waiting_empty s"
  shows "timed a s \<Longrightarrow> timed a (step c w pl s act)"
  by (cases act)
    (simp_all add: timed_main [OF assms(1)] timed_listener [OF assms(2)] timed_timer timed_publish)

lemma timed_run:
  assumes "IsAsync c"
  shows "nothing_delivered c w pl a sched \<Longrightarrow> timed a (run c w pl a sched)"
proof (induction sched rule: rev_induct)
  case Nil
  show ?case by (simp add: run_Nil timed_start)
next
  case (snoc act sched)
  from snoc.prems have nd: "nothing_delivered c w pl a sched"
    by (simp add: nothing_delivered_snoc)
  then have "timed a (run c w pl a sched)" and "waiting_empty (run c w pl a sched)"
    by (simp_all add: snoc.IH nothing_delivered_last)
  then show ?case
    by (simp add: run_snoc timed_step [OF assms])
qed

lemma undelivered_waiting: "undelivered pl a s \<Longrightarrow> waiting_empty s"
  by (auto simp: undelivered_def waiting_empty_def split: gpc.splits pubsub.splits list.splits)

lemma unpublished_nothing_delivered:
  assumes "IsAsync c" and "\<forall>m. Publish (key_of pl) m \<notin> set sched"
  shows "nothing_delivered c w pl a sched"
  unfolding nothing_delivered_def list_all_iff
proof
  fix p
  assume "p \<in> set (prefixes sched)"
  then have "set p \<subseteq> set sched"
    by (simp add: set_mono_prefix)
  with assms(2) have "\<forall>m. Publish (key_of pl) m \<notin> set p"
    by blast
  then have "undelivered pl a (run c w pl a p)"
    by (rule undelivered_run [OF assms(1)])
  then show "waiting_empty (run c w pl a p)"
    by (rule undelivered_waiting)
qed

lemma timed_out_start: "timed_out x (start a)"
  by (simp add: timed_out_def start_def)

lemma timed_out_main:
  assumes "IsAsync c" and "Marshal w pl = Inr x" and "Post w (httpClient c) (server c) x = Inr r"
    and "timed a s"
  shows "timed_out x s \<Longrightarrow> timed_out x (main_step c w pl s)"
proof -
  from assms(4) have ch: "responseChan s = None" "\<forall>e. errorChan s = Some e \<longrightarrow> e = ErrAsyncTimeout"
    by (simp_all add: timed_def)
  assume "timed_out x s"
  with assms(1-3) ch show ?thesis
    by (cases "pc_main s")
      (simp_all add: timed_out_def main_step_def returns_def split: option.splits)
qed

lemma timed_out_step:
  assumes "IsAsync c" and "Marshal w pl = Inr x" and "Post w (httpClient c) (server c) x = Inr r"
    and "timed a s"
  shows "timed_out x s \<Longrightarrow> timed_out x (step c w pl s act)"
  by (cases act)
    (simp_all add: timed_out_main [OF assms], simp_all add: timed_out_def pc_main_other other_fields)

lemma timed_out_run:
  assumes "IsAsync c" and "Marshal w pl = Inr x" and "Post w (httpClient c) (server c) x = Inr r"
  shows "nothing_delivered c w pl a sched \<Longrightarrow> timed_out x (run c w pl a sched)"
proof (induction sched rule: rev_induct)
  case Nil
  show ?case by (simp add: run_Nil timed_out_start)
next
  case (snoc act sched)
  from snoc.prems have nd: "nothing_delivered c w pl a sched"
    by (simp add: nothing_delivered_snoc)
  then have "timed_out x (run c w pl a sched)" and "timed a (run c w pl a sched)"
    by (simp_all add: snoc.IH timed_run [OF assms(1)])
  then show ?case
    by (simp add: run_snoc timed_out_step [OF assms])
qed

lemma timeout_schedule:
  assumes "IsAsync c" and "Marshal w pl = Inr x" and "Post w (httpClient c) (server c) x = Inr r"
  shows "fst (request c w [Main, Main, Listener, Main, Main, Timer, Listener, Listener, Main] pl a)
           = Some (a, Some ErrAsyncTimeout)"
  using assms
  by (simp add: request_def run_def start_def main_step_def listener_step_def readAsync_def timer_step_def returns_def)


subsection \<open>Release of the subscription\<close>

lemma released_start: "released x (start a)"
  by (simp add: released_def start_def chans_empty_def)

lemma released_main:
  assumes "IsAsync c" and "Marshal w pl = Inr x" and "Post w (httpClient c) (server c) x = Inr r"
  shows "released x s \<Longrightarrow> released x (main_step c w pl s)"
  using assms
  by (cases "pc_main s")
    (auto simp: released_def main_step_def returns_def chans_empty_def split: option.splits prod.splits)

lemma released_listener: "released x s \<Longrightarrow> released x (listener_step s)"
  by (cases "pc_listener s")
    (auto simp: released_def listener_step_def readAsync_def chans_empty_def split: option.splits pubsub.splits list.splits)

lemma released_timer: "released x s \<Longrightarrow> released x (timer_step s)"
  by (auto simp: released_def timer_step_def chans_empty_def)

lemma released_publish: "released x s \<Longrightarrow> released x (publish_step k m s)"
  by (auto simp: released_def publish_step_def chans_empty_def split: pubsub.splits)

lemma released_step:
  assumes "IsAsync c" and "Marshal w pl = Inr x" and "Post w (httpClient c) (server c) x = Inr r"
  shows "released x s \<Longrightarrow> released x (step c w pl s act)"
  by (cases act) (simp_all add: released_main [OF assms] released_listener released_timer released_publish)

lemma released_run:
  assumes "IsAsync c" and "Marshal w pl = Inr x" and "Post w (httpClient c) (server c) x = Inr r"
  shows "released x (run c w pl a sched)"
  by (rule run_invariant) (auto intro: released_start released_step [OF assms])

subsection \<open>The select of request\<close>

lemma one_ready_start: "one_ready c (start a)"
  by (simp add: one_ready_def start_def chans_empty_def)

lemma one_ready_main: "one_ready c s \<Longrightarrow> one_ready c (main_step c w pl s)"
  by (cases "pc_main s")
    (auto simp: one_ready_def main_step_def returns_def chans_empty_def
      split: option.splits prod.splits sum.splits)

lemma one_ready_listener: "one_ready c s \<Longrightarrow> one_ready c (listener_step s)"
  by (cases "pc_listener s")
    (auto simp: one_ready_def listener_step_def readAsync_def chans_empty_def split: option.splits pubsub.splits list.splits)

lemma one_ready_timer: "one_ready c s \<Longrightarrow> one_ready c (timer_step s)"
  by (auto simp: one_ready_def timer_step_def chans_empty_def)

lemma one_ready_publish: "one_ready c s \<Longrightarrow> one_ready c (publish_step k m s)"
  by (auto simp: one_ready_def publish_step_def chans_empty_def split: pubsub.splits)

lemma one_ready_step: "one_ready c s \<Longrightarrow> one_ready c (step c w pl s act)"
  by (cases act) (simp_all add: one_ready_main one_ready_listener one_ready_timer one_ready_publish)

lemma one_ready_run: "one_ready c (run c w pl a sched)"
  by (rule run_invariant) (auto intro: one_ready_start one_ready_step)

lemma select_one_ready:
  "responseChan (run c w pl a sched) = None \<or> errorChan (run c w pl a sched) = None"
  using one_ready_run [of c w pl a sched] by (simp add: one_ready_def)

section \<open>The claims\<close>

subsection \<open>C1: requests carry the identity of the client\<close>



subsection \<open>C2: the subscription and the post\<close>

text \<open>
  C2. The \<^verbatim>\<open>go\<close> statement of \<^verbatim>\<open>request\<close> makes the listener runnable; the subscription
  is made by the listener, inside \<^verbatim>\<open>readAsync\<close>, and the calling goroutine does not wait
  for it before it posts. Under the schedule below the post is issued before the
  subscription exists, the answer that the peer publishes on the key right after
  the post reaches no subscriber, and the Start request ends with the async timeout:
  the events are the post, then the subscription, then its close, then the return.
\<close>

theorem post_can_precede_subscribe:
  "client_PRStartReq async_client (replies 200 [])
     [Main, Main, Main, Publish ''lora:backend:async:PRStartReq:7'' ''Success/'',
      Listener, Timer, Listener, Listener, Main, Main] (sample_request 7) ()
   = (Some (zeroAns (), Some ErrAsyncTimeout),
      [EvPost ''https://peer/'' ''1.0;010203;040506;PRStartReq;7'',
       EvSubscribe ''lora:backend:async:PRStartReq:7'',
       EvClose ''lora:backend:async:PRStartReq:7'', EvReturn])"
  by code_simp

subsection \<open>C3: the result code decides between answer and application failure\<close>

text \<open>
  C3. For each of the five operations: when \<^verbatim>\<open>request\<close> has returned no error and has
  decoded the answer \<open>a\<close>, the operation returns \<open>a\<close> with no error if the result code of
  \<open>a\<close> is \<open>Success\<close>, and otherwise returns \<open>a\<close> with the error made by \<^verbatim>\<open>fmt.Errorf\<close> from
  exactly the result code and the description of \<open>a\<close>. That error is an \<open>Errorf\<close> value,
  so it is none of the wrapped transport and decode errors, the library errors or the
  async timeout.
\<close>

theorem result_code_decides:
  "(fst (request c w sched (stamped_by c PRStartReq pl) (zeroAns z)) = Some (a, None) \<longrightarrow>
      fst (client_PRStartReq c w sched pl z) =
        Some (a, if ResultCode (Result a) = Success then None
                 else Some (Errorf (''response error, code: '' @ ResultCode (Result a)
                                     @ '', description: '' @ Description (Result a)))))
   \<and> (fst (request c w sched (stamped_by c PRStopReq pl) (zeroAns z)) = Some (a, None) \<longrightarrow>
      fst (client_PRStopReq c w sched pl z) =
        Some (a, if ResultCode (Result a) = Success then None
                 else Some (Errorf (''response error, code: '' @ ResultCode (Result a)
                                     @ '', description: '' @ Description (Result a)))))
   \<and> (fst (request c w sched (stamped_by c XmitDataReq pl) (zeroAns z)) = Some (a, None) \<longrightarrow>
      fst (client_XmitDataReq c w sched pl z) =
        Some (a, if ResultCode (Result a) = Success then None
                 else Some (Errorf (''response error, code: '' @ ResultCode (Result a)
                                     @ '', description: '' @ Description (Result a)))))
   \<and> (fst (request c w sched (stamped_by c ProfileReq pl) (zeroAns z)) = Some (a, None) \<longrightarrow>
      fst (client_ProfileReq c w sched pl z) =
        Some (a, if ResultCode (Result a) = Success then None
                 else Some (Errorf (''response error, code: '' @ ResultCode (Result a)
                                     @ '', description: '' @ Description (Result a)))))
   \<and> (fst (request c w sched (stamped_by c HomeNSReq pl) (zeroAns z)) = Some (a, None) \<longrightarrow>
      fst (client_HomeNSReq c w sched pl z) =
        Some (a, if ResultCode (Result a) = Success then None
                 else Some (Errorf (''response error, code: '' @ ResultCode (Result a)
                                     @ '', description: '' @ Description (Result a)))))
   \<and> Errorf t \<noteq> Wrap e m \<and> Errorf t \<noteq> Lib m \<and> Errorf t \<noteq> ErrAsyncTimeout"
  by (simp add: dispatch_result response_error_def ErrAsyncTimeout_def)

text \<open>
  The peer answers every operation of the sample client with code \<^verbatim>\<open>500\<close> and
  description \<^verbatim>\<open>server error\<close>: each operation returns the application failure with
  that code and description.
\<close>

theorem result_code_decides_witness:
  "fst (request sync_client (replies 200 ''500/server error'') [Main, Main, Main, Main, Main]
          (stamped_by sync_client PRStartReq (sample_request 42)) (zeroAns ()))
     = Some (sample_answer ''500'' ''server error'', None)
   \<and> fst (request sync_client (replies 200 ''500/server error'') [Main, Main, Main, Main, Main]
          (stamped_by sync_client PRStopReq (sample_request 42)) (zeroAns ()))
     = Some (sample_answer ''500'' ''server error'', None)
   \<and> fst (request sync_client (replies 200 ''500/server error'') [Main, Main, Main, Main, Main]
          (stamped_by sync_client XmitDataReq (sample_request 42)) (zeroAns ()))
     = Some (sample_answer ''500'' ''server error'', None)
   \<and> fst (request sync_client (replies 200 ''500/server error'') [Main, Main, Main, Main, Main]
          (stamped_by sync_client ProfileReq (sample_request 42)) (zeroAns ()))
     = Some (sample_answer ''500'' ''server error'', None)
   \<and> fst (request sync_client (replies 200 ''500/server error'') [Main, Main, Main, Main, Main]
          (stamped_by sync_client HomeNSReq (sample_request 42)) (zeroAns ()))
     = Some (sample_answer ''500'' ''server error'', None)
   \<and> fst (client_PRStartReq sync_client (replies 200 ''500/server error'')
            [Main, Main, Main, Main, Main] (sample_request 42) ())
     = Some (sample_answer ''500'' ''server error'',
             Some (Errorf ''response error, code: 500, description: server error''))
   \<and> fst (client_PRStopReq sync_client (replies 200 ''500/server error'')
            [Main, Main, Main, Main, Main] (sample_request 42) ())
     = Some (sample_answer ''500'' ''server error'',
             Some (Errorf ''response error, code: 500, description: server error''))
   \<and> fst (client_XmitDataReq sync_client (replies 200 ''500/server error'')
            [Main, Main, Main, Main, Main] (sample_request 42) ())
     = Some (sample_answer ''500'' ''server error'',
             Some (Errorf ''response error, code: 500, description: server error''))
   \<and> fst (client_ProfileReq sync_client (replies 200 ''500/server error'')
            [Main, Main, Main, Main, Main] (sample_request 42) ())
     = Some (sample_answer ''500'' ''server error'',
             Some (Errorf ''response error, code: 500, description: server error''))
   \<and> fst (client_HomeNSReq sync_client (replies 200 ''500/server error'')
            [Main, Main, Main, Main, Main] (sample_request 42) ())
     = Some (sample_answer ''500'' ''server error'',
             Some (Errorf ''response error, code: 500, description: server error''))"
proof -
  have h: "fst (request sync_client (replies 200 ''500/server error'') [Main, Main, Main, Main, Main]
          (stamped_by sync_client PRStartReq (sample_request 42)) (zeroAns ()))
     = Some (sample_answer ''500'' ''server error'', None)"
    "fst (request sync_client (replies 200 ''500/server error'') [Main, Main, Main, Main, Main]
          (stamped_by sync_client PRStopReq (sample_request 42)) (zeroAns ()))
     = Some (sample_answer ''500'' ''server error'', None)"
    "fst (request sync_client (replies 200 ''500/server error'') [Main, Main, Main, Main, Main]
          (stamped_by sync_client XmitDataReq (sample_request 42)) (zeroAns ()))
     = Some (sample_answer ''500'' ''server error'', None)"
    "fst (request sync_client (replies 200 ''500/server error'') [Main, Main, Main, Main, Main]
          (stamped_by sync_client ProfileReq (sample_request 42)) (zeroAns ()))
     = Some (sample_answer ''500'' ''server error'', None)"
    "fst (request sync_client (replies 200 ''500/server error'') [Main, Main, Main, Main, Main]
          (stamped_by sync_client HomeNSReq (sample_request 42)) (zeroAns ()))
     = Some (sample_answer ''500'' ''server error'', None)"
    by code_simp+
  have code: "ResultCode (Result (sample_answer ''500'' ''server error'')) \<noteq> Success"
    "ResultCode (Result (sample_answer ''500'' ''server error'')) = ''500''"
    "Description (Result (sample_answer ''500'' ''server error'')) = ''server error''"
    by (simp_all add: sample_answer_def Success_def)
  note inst = result_code_decides
    [where c = sync_client and w = "replies 200 ''500/server error''"
       and sched = "[Main, Main, Main, Main, Main]" and pl = "sample_request 42" and z = "()"
       and a = "sample_answer ''500'' ''server error''"]
  from inst h code show ?thesis
    by simp
qed

subsection \<open>C4: a failing post in async mode\<close>

text \<open>
  C4, as stated, fails. The sample async client posts to a peer that refuses the
  connection. The listener is subscribed before the post, the answer is published on
  the key and the timer never fires; the listener receives the answer and puts it on
  the response channel. The Start request has returned the transport failure all the
  same, at the failing post.
\<close>

theorem async_post_failure_drops_answer:
  "fst (client_PRStartReq async_client refused
         [Main, Main, Listener, Main,
          Publish ''lora:backend:async:PRStartReq:7'' ''Success/'',
          Listener, Listener, Listener, Main] (sample_request 7) ())
     = Some (zeroAns (), Some (Wrap (Lib ''connection refused'') ''http post error''))
   \<and> responseChan (run async_client refused (stamped_by async_client PRStartReq (sample_request 7))
         (zeroAns ())
         [Main, Main, Listener, Main,
          Publish ''lora:backend:async:PRStartReq:7'' ''Success/'',
          Listener, Listener, Listener, Main])
     = Some ''Success/''"
  by code_simp

text \<open>
  C4, amended. In async mode, when the request marshals and the post fails with \<open>e\<close>,
  \<^verbatim>\<open>request\<close> returns at the third step of the calling goroutine, whatever else the
  schedule holds (subscriptions, publications on the key, the timer): it has not
  returned before that step, and from that step on it has returned the untouched
  answer and the error \<^verbatim>\<open>http post error\<close> wrapping \<open>e\<close>.
\<close>

theorem async_post_failure_returns_at_once:
  assumes "IsAsync c" and "Marshal w pl = Inr x" and "Post w (httpClient c) (server c) x = Inl e"
  shows "fst (request c w sched pl a) =
           (if 3 \<le> mains sched then Some (a, Some (Wrap (Lib e) ''http post error'')) else None)"
proof -
  let ?s = "run c w pl a sched"
  have inv: "post_failed a x e ?s"
    by (rule post_failed_run [OF assms(2) assms(3)])
  have rk: "rank (pc_main ?s) = (if mains sched < 3 then mains sched else 5)"
    by (rule post_failed_rank [OF assms(2) assms(3)])
  show ?thesis
  proof (cases "3 \<le> mains sched")
    case True
    with rk have "pc_main ?s = MReturn" by (simp add: rank_5 [symmetric])
    with inv True show ?thesis by (simp add: request_result post_failed_def)
  next
    case False
    with rk have "pc_main ?s \<noteq> MReturn" by (auto simp: rank_5 [symmetric])
    with False show ?thesis by (simp add: request_result)
  qed
qed

theorem async_post_failure_returns_at_once_witness:
  "IsAsync async_client
   \<and> Marshal refused (sample_request 7) = Inr '';;;;7''
   \<and> Post refused (httpClient async_client) (server async_client) '';;;;7'' = Inl ''connection refused''
   \<and> fst (request async_client refused
            [Main, Main, Listener, Main, Publish ''lora:backend:async::7'' ''Success/'', Listener]
            (sample_request 7) (zeroAns ()))
     = Some (zeroAns (), Some (Wrap (Lib ''connection refused'') ''http post error''))"
proof -
  have h: "IsAsync async_client" "Marshal refused (sample_request 7) = Inr '';;;;7''"
    "Post refused (httpClient async_client) (server async_client) '';;;;7'' = Inl ''connection refused''"
    by code_simp+
  have "3 \<le> mains [Main, Main, Listener, Main, Publish ''lora:backend:async::7'' ''Success/'', Listener]"
    by (simp add: mains_def)
  with async_post_failure_returns_at_once [OF h,
      where sched = "[Main, Main, Listener, Main, Publish ''lora:backend:async::7'' ''Success/'', Listener]"
        and a = "zeroAns ()"]
  show ?thesis using h by simp
qed

subsection \<open>C5: the async timeout\<close>

text \<open>
  C5. In async mode, under a schedule with no delivery (whenever the listener waits in
  its \<^verbatim>\<open>select\<close>, its subscription holds no message): once \<^verbatim>\<open>readAsync\<close> is past its
  \<^verbatim>\<open>select\<close> its result is no payload and \<open>ErrAsyncTimeout\<close>; when the request marshals and
  the post succeeds, \<^verbatim>\<open>request\<close> has either not returned yet or has returned the
  untouched answer with \<open>ErrAsyncTimeout\<close>, and it does return it once the timer has
  fired and both goroutines have run on. \<open>ErrAsyncTimeout\<close> is none of the wrapped errors
  (marshal, unmarshal, post, publish), none of the \<^verbatim>\<open>fmt.Errorf\<close> application failures and
  none of the library errors. The length of the timeout window is not part of the
  model: the firing of the timer is an action of the schedule.
\<close>

theorem async_timeout_failure:
  assumes "IsAsync c" and "nothing_delivered c w pl a sched"
  shows "(pc_listener (run c w pl a sched) \<in> {GClose, GSend, GExit} \<longrightarrow>
            v_bb (run c w pl a sched) = [] \<and> v_err (run c w pl a sched) = Some ErrAsyncTimeout)
    \<and> (Marshal w pl = Inr x \<and> Post w (httpClient c) (server c) x = Inr r \<longrightarrow>
          (fst (request c w sched pl a) = None
           \<or> fst (request c w sched pl a) = Some (a, Some ErrAsyncTimeout))
          \<and> fst (request c w [Main, Main, Listener, Main, Main, Timer, Listener, Listener, Main] pl a)
               = Some (a, Some ErrAsyncTimeout))
    \<and> ErrAsyncTimeout \<noteq> Wrap e m \<and> ErrAsyncTimeout \<noteq> Errorf m \<and> ErrAsyncTimeout \<noteq> Lib m"
proof -
  have u: "timed a (run c w pl a sched)"
    by (rule timed_run [OF assms])
  have "Marshal w pl = Inr x \<Longrightarrow> Post w (httpClient c) (server c) x = Inr r \<Longrightarrow>
     timed_out x (run c w pl a sched)"
    using timed_out_run [OF assms(1) _ _ assms(2), of x r] by simp
  with u show ?thesis
    using timeout_schedule [OF assms(1), of w pl x r a]
    by (auto simp: timed_def timed_out_def request_result ErrAsyncTimeout_def)
qed


text \<open>
  The sample async client and a peer that acknowledges the post. The peer publishes
  on the key before the listener has subscribed, on another key while it waits, and
  on the key again after the timer has fired: nothing is delivered within the window
  and the Start request with transaction id 7 times out.
\<close>

theorem async_timeout_failure_witness:
  "IsAsync async_client
   \<and> nothing_delivered async_client (replies 200 [])
        (stamped_by async_client PRStartReq (sample_request 7)) (zeroAns ())
        [Main, Main, Main, Publish ''lora:backend:async:PRStartReq:7'' ''Success/'', Listener,
         Publish ''lora:backend:async:PRStartReq:8'' ''Success/'', Main,
         Timer, Publish ''lora:backend:async:PRStartReq:7'' ''Success/'', Listener, Listener, Main]
   \<and> pc_listener (run async_client (replies 200 []) (stamped_by async_client PRStartReq (sample_request 7))
        (zeroAns ())
        [Main, Main, Main, Publish ''lora:backend:async:PRStartReq:7'' ''Success/'', Listener,
         Publish ''lora:backend:async:PRStartReq:8'' ''Success/'', Main,
         Timer, Publish ''lora:backend:async:PRStartReq:7'' ''Success/'', Listener, Listener, Main])
       = GExit
   \<and> Marshal (replies 200 []) (stamped_by async_client PRStartReq (sample_request 7))
        = Inr ''1.0;010203;040506;PRStartReq;7''
   \<and> Post (replies 200 []) (httpClient async_client) (server async_client)
        ''1.0;010203;040506;PRStartReq;7'' = Inr \<lparr>StatusCode = 200, ReadAll = Inr []\<rparr>
   \<and> v_err (run async_client (replies 200 []) (stamped_by async_client PRStartReq (sample_request 7))
        (zeroAns ())
        [Main, Main, Main, Publish ''lora:backend:async:PRStartReq:7'' ''Success/'', Listener,
         Publish ''lora:backend:async:PRStartReq:8'' ''Success/'', Main,
         Timer, Publish ''lora:backend:async:PRStartReq:7'' ''Success/'', Listener, Listener, Main])
       = Some ErrAsyncTimeout
   \<and> fst (request async_client (replies 200 [])
        [Main, Main, Main, Publish ''lora:backend:async:PRStartReq:7'' ''Success/'', Listener,
         Publish ''lora:backend:async:PRStartReq:8'' ''Success/'', Main,
         Timer, Publish ''lora:backend:async:PRStartReq:7'' ''Success/'', Listener, Listener, Main]
        (stamped_by async_client PRStartReq (sample_request 7)) (zeroAns ()))
      = Some (zeroAns (), Some ErrAsyncTimeout)"
proof -
  let ?pl = "stamped_by async_client PRStartReq (sample_request 7)"
  let ?sched = "[Main, Main, Main, Publish ''lora:backend:async:PRStartReq:7'' ''Success/'', Listener,
         Publish ''lora:backend:async:PRStartReq:8'' ''Success/'', Main,
         Timer, Publish ''lora:backend:async:PRStartReq:7'' ''Success/'', Listener, Listener, Main]"
  have h1: "IsAsync async_client"
    by code_simp
  have h2: "nothing_delivered async_client (replies 200 []) ?pl (zeroAns ()) ?sched"
    by code_simp
  have h3: "pc_listener (run async_client (replies 200 []) ?pl (zeroAns ()) ?sched) = GExit"
    by code_simp
  have h4: "Marshal (replies 200 []) ?pl = Inr ''1.0;010203;040506;PRStartReq;7''"
    "Post (replies 200 []) (httpClient async_client) (server async_client)
        ''1.0;010203;040506;PRStartReq;7'' = Inr \<lparr>StatusCode = 200, ReadAll = Inr []\<rparr>"
    by code_simp+
  have ret: "fst (request async_client (replies 200 []) ?sched ?pl (zeroAns ())) \<noteq> None"
    by code_simp
  note inst = async_timeout_failure [OF h1 h2, where x = "''1.0;010203;040506;PRStartReq;7''"
      and r = "\<lparr>StatusCode = 200, ReadAll = Inr []\<rparr>"]
  from inst h3 have e:
    "v_err (run async_client (replies 200 []) ?pl (zeroAns ()) ?sched) = Some ErrAsyncTimeout"
    by simp
  from inst h4 have
    "fst (request async_client (replies 200 []) ?sched ?pl (zeroAns ())) = None
     \<or> fst (request async_client (replies 200 []) ?sched ?pl (zeroAns ()))
         = Some (zeroAns (), Some ErrAsyncTimeout)"
    by simp
  with ret have
    "fst (request async_client (replies 200 []) ?sched ?pl (zeroAns ()))
      = Some (zeroAns (), Some ErrAsyncTimeout)"
    by auto
  with e show ?thesis
    using h1 h2 h3 h4 by simp
qed

subsection \<open>C6: the correlation key\<close>

text \<open>
  C6. \<open>getAsyncKey\<close> is a function of the message type and the transaction id alone
  (a total HOL function: it has a value at every argument and the same value at the
  same arguments). Two keys are equal only for equal message types and equal
  transaction ids: the decimal numeral holds no colon, so the last colon of a key
  separates the two. A key is the namespace \<^verbatim>\<open>lora\<close>, the component \<^verbatim>\<open>backend\<close>, \<^verbatim>\<open>async\<close>,
  the message type and the decimal transaction id, joined by colons. The key that
  \<^verbatim>\<open>request\<close> subscribes to and the key that \<^verbatim>\<open>writeAsync\<close> publishes on are the same
  when the message type and the transaction id are the same.
\<close>

theorem getAsyncKey_collision_free:
  "(getAsyncKey mt tid = getAsyncKey mt' tid' \<longrightarrow> mt = mt' \<and> tid = tid')
   \<and> getAsyncKey mt tid
        = ''lora'' @ '':'' @ ''backend'' @ '':'' @ ''async'' @ '':'' @ mt @ '':'' @ decimal (unat tid)
   \<and> (MessageType (GetBasePayload pl) = mt
        \<and> TransactionID (GetBasePayload pl) = TransactionID (Answer_GetBasePayload ans)
        \<and> EvSubscribe k \<in> set (snd (request c w sched pl a))
        \<and> EvPublish k' y \<in> set (snd (writeAsync c' w' mt ans))
      \<longrightarrow> k = getAsyncKey mt (TransactionID (GetBasePayload pl)) \<and> k' = k)"
proof -
  have "EvPublish k' y \<in> set (snd (writeAsync c' w' mt ans)) \<Longrightarrow>
      k' = getAsyncKey mt (TransactionID (Answer_GetBasePayload ans))"
    by (auto simp: writeAsync_def Let_def split: sum.splits option.splits)
  then show ?thesis
    using getAsyncKey_inj [of mt tid mt' tid']
    by (auto simp: getAsyncKey_def key_of_def dest: request_subscribes)
qed

text \<open>
  The Start request with transaction id 7 of the sample async client subscribes to
  the key on which the answer with transaction id 7 is published.
\<close>

theorem getAsyncKey_collision_free_witness:
  "getAsyncKey PRStartReq 7 = getAsyncKey PRStartReq 7
   \<and> MessageType (GetBasePayload (stamped_by async_client PRStartReq (sample_request 7))) = PRStartReq
   \<and> TransactionID (GetBasePayload (stamped_by async_client PRStartReq (sample_request 7)))
        = TransactionID (Answer_GetBasePayload
            ((zeroAns ())\<lparr>AnsBasePayload := (AnsBasePayload (zeroAns ()))\<lparr>TransactionID := 7\<rparr>\<rparr>))
   \<and> EvSubscribe ''lora:backend:async:PRStartReq:7''
        \<in> set (snd (request async_client (replies 200 []) [Main, Main, Listener]
                  (stamped_by async_client PRStartReq (sample_request 7)) (zeroAns ())))
   \<and> EvPublish ''lora:backend:async:PRStartReq:7'' '';;;;7''
        \<in> set (snd (writeAsync async_client (replies 200 []) PRStartReq
                  ((zeroAns ())\<lparr>AnsBasePayload := (AnsBasePayload (zeroAns ()))\<lparr>TransactionID := 7\<rparr>\<rparr>)))
   \<and> ''lora:backend:async:PRStartReq:7''
        = getAsyncKey PRStartReq (TransactionID (GetBasePayload (stamped_by async_client PRStartReq (sample_request 7))))"
proof -
  let ?pl = "stamped_by async_client PRStartReq (sample_request 7)"
  let ?ans = "(zeroAns ())\<lparr>AnsBasePayload := (AnsBasePayload (zeroAns ()))\<lparr>TransactionID := 7\<rparr>\<rparr>"
  have h: "MessageType (GetBasePayload ?pl) = PRStartReq"
    "TransactionID (GetBasePayload ?pl) = TransactionID (Answer_GetBasePayload ?ans)"
    "EvSubscribe ''lora:backend:async:PRStartReq:7''
        \<in> set (snd (request async_client (replies 200 []) [Main, Main, Listener] ?pl (zeroAns ())))"
    "EvPublish ''lora:backend:async:PRStartReq:7'' '';;;;7''
        \<in> set (snd (writeAsync async_client (replies 200 []) PRStartReq ?ans))"
    by code_simp+
  note inst = getAsyncKey_collision_free
    [where mt = PRStartReq and tid = 7 and mt' = PRStartReq and tid' = 7 and pl = ?pl and ans = ?ans
       and k = "''lora:backend:async:PRStartReq:7''" and k' = "''lora:backend:async:PRStartReq:7''"
       and y = "'';;;;7''" and c = async_client and w = "replies 200 []"
       and sched = "[Main, Main, Listener]" and a = "zeroAns ()"
       and c' = async_client and w' = "replies 200 []"]
  from inst h have "''lora:backend:async:PRStartReq:7'' = getAsyncKey PRStartReq (TransactionID (GetBasePayload ?pl))"
    by blast
  with h show ?thesis
    by simp
qed

subsection \<open>C7: release of the subscription\<close>

text \<open>
  On the exits through the final \<^verbatim>\<open>select\<close> (answer received, answer not decodable,
  timeout) the release does come before the return: in async mode, when the request
  marshals and the post succeeds, in every state in which \<^verbatim>\<open>request\<close> has returned the
  subscription is closed and the listener goroutine has run to its end.
\<close>

theorem subscription_released_after_select:
  assumes "IsAsync c" and "Marshal w pl = Inr x" and "Post w (httpClient c) (server c) x = Inr r"
    and "pc_main (run c w pl a sched) = MReturn"
  shows "v_sub (run c w pl a sched) = Closed \<and> pc_listener (run c w pl a sched) = GExit"
  using released_run [OF assms(1) assms(2) assms(3), of a sched] assms(4)
  by (simp add: released_def)

text \<open>
  C7. The release does not come before the return on the exit after a transport
  failure. \<^verbatim>\<open>sub.Close()\<close> is deferred inside \<^verbatim>\<open>readAsync\<close>, which runs in the listener
  goroutine, and \<^verbatim>\<open>request\<close> returns on a failing post without waiting for that
  goroutine. The sample async client posts to a peer that refuses the connection,
  after the listener has subscribed: \<^verbatim>\<open>request\<close> has returned the transport failure, the
  subscription is open and the listener is waiting in its \<^verbatim>\<open>select\<close>.
\<close>

theorem transport_failure_leaves_subscription_open:
  "pc_main (run async_client refused (stamped_by async_client PRStartReq (sample_request 7))
        (zeroAns ()) [Main, Main, Listener, Main]) = MReturn
   \<and> v_ret (run async_client refused (stamped_by async_client PRStartReq (sample_request 7))
        (zeroAns ()) [Main, Main, Listener, Main])
      = Some (Wrap (Lib ''connection refused'') ''http post error'')
   \<and> v_sub (run async_client refused (stamped_by async_client PRStartReq (sample_request 7))
        (zeroAns ()) [Main, Main, Listener, Main])
      = Subscribed ''lora:backend:async:PRStartReq:7'' []
   \<and> pc_listener (run async_client refused (stamped_by async_client PRStartReq (sample_request 7))
        (zeroAns ()) [Main, Main, Listener, Main]) = GSelect"
  by code_simp

text \<open>
  The listener left behind does close its subscription later, once a message
  arrives on the key or the timer fires, and then ends: both channels are buffered.
\<close>

theorem abandoned_listener_ends:
  "v_sub (run async_client refused (stamped_by async_client PRStartReq (sample_request 7))
        (zeroAns ()) [Main, Main, Listener, Main, Timer, Listener, Listener]) = Closed
   \<and> pc_listener (run async_client refused (stamped_by async_client PRStartReq (sample_request 7))
        (zeroAns ()) [Main, Main, Listener, Main, Timer, Listener, Listener]) = GExit"
  by code_simp

text \<open>
  A run of the sample async client through the final \<^verbatim>\<open>select\<close>, with the answer
  received: the subscription is closed when \<^verbatim>\<open>request\<close> has returned.
\<close>

theorem subscription_released_after_select_witness:
  "IsAsync async_client
   \<and> Marshal (replies 200 []) (stamped_by async_client PRStartReq (sample_request 7))
        = Inr ''1.0;010203;040506;PRStartReq;7''
   \<and> Post (replies 200 []) (httpClient async_client) (server async_client)
        ''1.0;010203;040506;PRStartReq;7'' = Inr \<lparr>StatusCode = 200, ReadAll = Inr []\<rparr>
   \<and> pc_main (run async_client (replies 200 []) (stamped_by async_client PRStartReq (sample_request 7))
        (zeroAns ())
        [Main, Main, Listener, Main, Publish ''lora:backend:async:PRStartReq:7'' ''Success/'',
         Listener, Listener, Listener, Main, Main]) = MReturn
   \<and> v_sub (run async_client (replies 200 []) (stamped_by async_client PRStartReq (sample_request 7))
        (zeroAns ())
        [Main, Main, Listener, Main, Publish ''lora:backend:async:PRStartReq:7'' ''Success/'',
         Listener, Listener, Listener, Main, Main]) = Closed"
proof -
  let ?pl = "stamped_by async_client PRStartReq (sample_request 7)"
  let ?sched = "[Main, Main, Listener, Main, Publish ''lora:backend:async:PRStartReq:7'' ''Success/'',
         Listener, Listener, Listener, Main, Main]"
  have h: "IsAsync async_client"
    "Marshal (replies 200 []) ?pl = Inr ''1.0;010203;040506;PRStartReq;7''"
    "Post (replies 200 []) (httpClient async_client) (server async_client)
        ''1.0;010203;040506;PRStartReq;7'' = Inr \<lparr>StatusCode = 200, ReadAll = Inr []\<rparr>"
    "pc_main (run async_client (replies 200 []) ?pl (zeroAns ()) ?sched) = MReturn"
    by code_simp+
  from subscription_released_after_select [OF h]
  have "v_sub (run async_client (replies 200 []) ?pl (zeroAns ()) ?sched) = Closed"
    by simp
  with h show ?thesis
    by simp
qed

subsection \<open>C8: sync mode\<close>

text \<open>
  C8. In sync mode, for a request that marshals: when the post succeeds with a
  response of any status code \<open>n\<close> whose body reads as \<open>y\<close>, \<^verbatim>\<open>request\<close> returns at the fifth
  step of the calling goroutine, and what it returns is \<open>y\<close> decoded into the answer
  (with the decode error, wrapped, when \<open>y\<close> does not decode); the status code takes no
  part. When the post fails with \<open>e\<close>, \<^verbatim>\<open>request\<close> returns at the third step, with the
  untouched answer and the error \<^verbatim>\<open>http post error\<close> wrapping \<open>e\<close>.
\<close>

theorem sync_body_is_answer:
  assumes "\<not> IsAsync c" and "Marshal w pl = Inr x"
  shows "(Post w (httpClient c) (server c) x = Inr \<lparr>StatusCode = n, ReadAll = Inr y\<rparr> \<longrightarrow>
            (\<forall>sched. fst (request c w sched pl a) =
                       (if 5 \<le> mains sched then Some (decoded w y a) else None)))
       \<and> (Post w (httpClient c) (server c) x = Inl e \<longrightarrow>
            (\<forall>sched. fst (request c w sched pl a) =
                       (if 3 \<le> mains sched then Some (a, Some (Wrap (Lib e) ''http post error''))
                        else None)))"
proof (intro conjI impI allI)
  fix sched
  assume p: "Post w (httpClient c) (server c) x = Inr \<lparr>StatusCode = n, ReadAll = Inr y\<rparr>"
  have rd: "ReadAll \<lparr>StatusCode = n, ReadAll = Inr y\<rparr> = Inr y" by simp
  let ?s = "run c w pl a sched"
  have inv: "sync_ok w a x \<lparr>StatusCode = n, ReadAll = Inr y\<rparr> y ?s"
    by (rule sync_ok_run [OF assms p rd])
  have rk: "rank (pc_main ?s) = min 5 (mains sched)"
    by (rule sync_ok_rank [OF assms p rd])
  show "fst (request c w sched pl a) = (if 5 \<le> mains sched then Some (decoded w y a) else None)"
  proof (cases "5 \<le> mains sched")
    case True
    with rk have "pc_main ?s = MReturn" by (simp add: rank_5 [symmetric])
    with inv True show ?thesis by (simp add: request_result sync_ok_def)
  next
    case False
    with rk have "pc_main ?s \<noteq> MReturn" by (auto simp: rank_5 [symmetric])
    with False show ?thesis by (simp add: request_result)
  qed
next
  fix sched
  assume p: "Post w (httpClient c) (server c) x = Inl e"
  let ?s = "run c w pl a sched"
  have inv: "post_failed a x e ?s"
    by (rule post_failed_run [OF assms(2) p])
  have rk: "rank (pc_main ?s) = (if mains sched < 3 then mains sched else 5)"
    by (rule post_failed_rank [OF assms(2) p])
  show "fst (request c w sched pl a) =
          (if 3 \<le> mains sched then Some (a, Some (Wrap (Lib e) ''http post error'')) else None)"
  proof (cases "3 \<le> mains sched")
    case True
    with rk have "pc_main ?s = MReturn" by (simp add: rank_5 [symmetric])
    with inv True show ?thesis by (simp add: request_result post_failed_def)
  next
    case False
    with rk have "pc_main ?s \<noteq> MReturn" by (auto simp: rank_5 [symmetric])
    with False show ?thesis by (simp add: request_result)
  qed
qed

text \<open>
  The sample sync client: a reply with status 503 and body \<^verbatim>\<open>Success/\<close> is returned as
  the answer with result code \<^verbatim>\<open>Success\<close>; a refused connection is returned as the
  transport failure.
\<close>

theorem sync_body_is_answer_witness:
  "\<not> IsAsync sync_client
   \<and> Marshal (replies 503 ''Success/'') (sample_request 42) = Inr '';;;;42''
   \<and> Post (replies 503 ''Success/'') (httpClient sync_client) (server sync_client) '';;;;42''
        = Inr \<lparr>StatusCode = 503, ReadAll = Inr ''Success/''\<rparr>
   \<and> fst (request sync_client (replies 503 ''Success/'') [Main, Main, Main, Main, Main]
            (sample_request 42) (zeroAns ()))
        = Some (sample_answer ''Success'' [], None)
   \<and> Marshal refused (sample_request 42) = Inr '';;;;42''
   \<and> Post refused (httpClient sync_client) (server sync_client) '';;;;42'' = Inl ''connection refused''
   \<and> fst (request sync_client refused [Main, Main, Main] (sample_request 42) (zeroAns ()))
        = Some (zeroAns (), Some (Wrap (Lib ''connection refused'') ''http post error''))"
proof -
  have h: "\<not> IsAsync sync_client"
    "Marshal (replies 503 ''Success/'') (sample_request 42) = Inr '';;;;42''"
    "Post (replies 503 ''Success/'') (httpClient sync_client) (server sync_client) '';;;;42''
        = Inr \<lparr>StatusCode = 503, ReadAll = Inr ''Success/''\<rparr>"
    and g: "Marshal refused (sample_request 42) = Inr '';;;;42''"
    "Post refused (httpClient sync_client) (server sync_client) '';;;;42'' = Inl ''connection refused''"
    and d: "decoded (replies 503 ''Success/'') ''Success/'' (zeroAns ()) = (sample_answer ''Success'' [], None)"
    by code_simp+
  have m: "5 \<le> mains [Main, Main, Main, Main, Main]" "3 \<le> mains [Main, Main, Main]"
    by (simp_all add: mains_def)
  from sync_body_is_answer [OF h(1) h(2), where n = 503 and y = "''Success/''" and a = "zeroAns ()"] h(3) m(1) d
  have "fst (request sync_client (replies 503 ''Success/'') [Main, Main, Main, Main, Main]
            (sample_request 42) (zeroAns ()))
        = Some (sample_answer ''Success'' [], None)"
    by simp
  moreover
  from sync_body_is_answer [OF h(1) g(1), where e = "''connection refused''" and a = "zeroAns ()"] g(2) m(2)
  have "fst (request sync_client refused [Main, Main, Main] (sample_request 42) (zeroAns ()))
        = Some (zeroAns (), Some (Wrap (Lib ''connection refused'') ''http post error''))"
    by simp
  ultimately show ?thesis
    using h g by simp
qed

subsection \<open>C9: the key of the sample scenario\<close>

text \<open>
  C9, as stated, fails: the key of a Start request with transaction id 7 is not
  \<^verbatim>\<open>ns:backend:async:PRStartReq:7\<close>. The namespace that \<open>getAsyncKey\<close> writes is \<^verbatim>\<open>lora\<close>.
\<close>

theorem start_key_7_is_not_ns:
  "getAsyncKey PRStartReq 7 \<noteq> ''ns:backend:async:PRStartReq:7''"
  by (simp add: getAsyncKey_def)

text \<open>
  C9, amended. For a Start request with transaction id 7, the correlation key is
  exactly \<^verbatim>\<open>lora:backend:async:PRStartReq:7\<close>, and it is the key the Start operation of an
  async client subscribes to.
\<close>

theorem start_key_7:
  "getAsyncKey PRStartReq 7 = ''lora:backend:async:PRStartReq:7''
   \<and> snd (client_PRStartReq async_client (replies 200 []) [Main, Main, Listener] (sample_request 7) ())
       = [EvSubscribe ''lora:backend:async:PRStartReq:7'']"
  by code_simp

subsection \<open>C10: a client built with TLS files\<close>

text \<open>
  C10. When one of \<open>CACert\<close>, \<open>TLSCert\<close>, \<open>TLSKey\<close> of the configuration is not empty and
  \<^verbatim>\<open>NewClient\<close> succeeds, the client has empty sender id, receiver id and protocol
  version, no Redis client and timeout 0, whatever the configuration holds:
  \<open>IsAsync\<close> is false, the getters return the empty string, and every body that any of
  the five operations posts is the marshalled payload with empty \<open>ProtocolVersion\<close>,
  \<open>SenderID\<close> and \<open>ReceiverID\<close>.
\<close>

theorem tls_client_has_zero_identity:
  assumes "CACert config \<noteq> [] \<or> TLSCert config \<noteq> [] \<or> TLSKey config \<noteq> []"
    and "NewClient sys pv config = Inr c"
  shows "senderID c = [] \<and> receiverID c = [] \<and> protocolVersion c = []
    \<and> redisClient c = None \<and> asyncTimeout c = 0
    \<and> \<not> IsAsync c \<and> GetSenderID c = [] \<and> GetReceiverID c = []
    \<and> (\<forall>srv x. EvPost srv x \<in> set (snd (client_PRStartReq c w sched pl z))
          \<longrightarrow> Marshal w (stamp [] [] [] PRStartReq pl) = Inr x)
    \<and> (\<forall>srv x. EvPost srv x \<in> set (snd (client_PRStopReq c w sched pl z))
          \<longrightarrow> Marshal w (stamp [] [] [] PRStopReq pl) = Inr x)
    \<and> (\<forall>srv x. EvPost srv x \<in> set (snd (client_XmitDataReq c w sched pl z))
          \<longrightarrow> Marshal w (stamp [] [] [] XmitDataReq pl) = Inr x)
    \<and> (\<forall>srv x. EvPost srv x \<in> set (snd (client_ProfileReq c w sched pl z))
          \<longrightarrow> Marshal w (stamp [] [] [] ProfileReq pl) = Inr x)
    \<and> (\<forall>srv x. EvPost srv x \<in> set (snd (client_HomeNSReq c w sched pl z))
          \<longrightarrow> Marshal w (stamp [] [] [] HomeNSReq pl) = Inr x)"
proof -
  from NewClient_tls [OF assms(2) assms(1)]
  have z: "protocolVersion c = []" "senderID c = []" "receiverID c = []"
    "redisClient c = None" "asyncTimeout c = 0"
    by simp_all
  then have s: "\<And>mt. stamped_by c mt pl = stamp [] [] [] mt pl"
    by (simp add: stamped_by_def)
  show ?thesis
    using z by (auto simp: IsAsync_def GetSenderID_def GetReceiverID_def dispatch_trace s
        dest: request_posts)
qed

text \<open>
  The sample configuration with a CA file, a Redis client and sender id \<^verbatim>\<open>010203\<close>:
  the client is not async and its Start request is posted with empty identity.
\<close>

theorem tls_client_has_zero_identity_witness:
  "CACert tls_config \<noteq> []
   \<and> NewClient sample_system ''1.0'' tls_config = Inr tls_client
   \<and> RedisClient tls_config = Some 1 \<and> ClientConfig.SenderID tls_config = ''010203''
   \<and> \<not> IsAsync tls_client \<and> GetSenderID tls_client = []
   \<and> EvPost ''https://peer/'' '';;;PRStartReq;42''
        \<in> set (snd (client_PRStartReq tls_client refused [Main, Main, Main] (sample_request 42) ()))
   \<and> Marshal refused (stamp [] [] [] PRStartReq (sample_request 42)) = Inr '';;;PRStartReq;42''"
proof -
  have ca: "CACert tls_config \<noteq> []"
    by code_simp
  then have h: "CACert tls_config \<noteq> [] \<or> TLSCert tls_config \<noteq> [] \<or> TLSKey tls_config \<noteq> []"
    by simp
  have n: "NewClient sample_system ''1.0'' tls_config = Inr tls_client"
    and g: "RedisClient tls_config = Some 1" "ClientConfig.SenderID tls_config = ''010203''"
    and ev: "EvPost ''https://peer/'' '';;;PRStartReq;42''
        \<in> set (snd (client_PRStartReq tls_client refused [Main, Main, Main] (sample_request 42) ()))"
    by code_simp+
  note inst = tls_client_has_zero_identity
    [OF h n, where w = refused and sched = "[Main, Main, Main]" and pl = "sample_request 42" and z = "()"]
  from inst have "\<not> IsAsync tls_client" "GetSenderID tls_client = []"
    by blast+
  moreover from inst ev
  have "Marshal refused (stamp [] [] [] PRStartReq (sample_request 42)) = Inr '';;;PRStartReq;42''"
    by blast
  ultimately show ?thesis
    using ca n g ev by simp
qed

end
